theory Spec2Isabelle
  imports Complex_Main
begin

section \<open>Tensors and the library operations the network is written with\<close>

text \<open>
  The model reads the source over exact real arithmetic: a rank-1 tensor is a list of
  reals, a rank-2 tensor is the list of its rows. Rounding of floating-point numbers is
  not part of the model. Integer tensors (atomic numbers, molecule ids, edge indices)
  are lists of naturals; an edge index tensor of shape (2, E) is the list of its E
  columns \<open>(edge_index[0][e], edge_index[1][e])\<close>.

  Failures of the source are values: an \<open>assert\<close> that fails is \<open>AssertionError\<close> with
  the message of the assert (\<open>None\<close> for an assert without message), an index outside
  a tensor is \<open>IndexError\<close>, an unknown reduction is \<open>ValueError\<close>, a failure of
  the automatic differentiation engine is \<open>RuntimeError\<close> with its message, \<open>None\<close>
  where a tensor is required is \<open>TypeError\<close>, and a Python integer that fits no 64-bit
  scalar is \<open>OverflowError\<close>. A copy from a tensor whose shape does not broadcast to the
  shape of the destination is a \<open>RuntimeError\<close> of the library whose message prints the
  two shapes; the model does not build that message and has the constructor
  \<open>BroadcastError\<close> for it. The feature tensors are taken in the shapes the constructors
  give them: a mismatch of the feature dimensions of two operands, which the constructors
  exclude, is not modelled as a failure.
\<close>

datatype error =
  AssertionError "string option" | IndexError | ValueError | RuntimeError string
  | TypeError | OverflowError | BroadcastError

type_synonym vec = "real list"
type_synonym tensor2 = "real list list"

text \<open>\<open>nn.Linear\<close>: a weight of shape (out_features, in_features), and a bias that is
  absent when the layer is built with \<open>bias=False\<close>.\<close>

record Linear =
  weight :: "real list list"
  bias :: "real list option"

definition F_linear :: "vec \<Rightarrow> real list list \<Rightarrow> real list option \<Rightarrow> vec" where
  "F_linear x W b =
     (let y = map (\<lambda>w. sum_list (map2 (*) x w)) W
      in case b of None \<Rightarrow> y | Some b' \<Rightarrow> map2 (+) y b')"

definition Linear_forward :: "Linear \<Rightarrow> tensor2 \<Rightarrow> tensor2" where
  "Linear_forward L X = map (\<lambda>x. F_linear x (weight L) (bias L)) X"

text \<open>\<open>nn.Sequential(nn.Linear, activation(), nn.Linear)\<close>, the filter-generating
  network of an interaction block. The activation classes of the registry act
  elementwise; the one chosen at construction is the field \<open>mlp_1\<close>.\<close>

record Sequential =
  mlp_0 :: Linear
  mlp_1 :: "real \<Rightarrow> real"
  mlp_2 :: Linear

definition Sequential_forward :: "Sequential \<Rightarrow> tensor2 \<Rightarrow> tensor2" where
  "Sequential_forward S X =
     Linear_forward (mlp_2 S) (map (map (mlp_1 S)) (Linear_forward (mlp_0 S) X))"

text \<open>Indexing a tensor along dimension 0 with an index tensor (\<open>x[idx]\<close>,
  \<open>index_select\<close>); an index outside the tensor raises.\<close>

definition index_select :: "'a list \<Rightarrow> nat list \<Rightarrow> error + 'a list" where
  "index_select xs idx =
     (if list_all (\<lambda>i. i < length xs) idx then Inr (map ((!) xs) idx) else Inl IndexError)"

text \<open>\<open>scatter_add_\<close> along dimension 0: row \<open>e\<close> of \<open>src\<close> is added to row
  \<open>index[e]\<close> of \<open>out\<close>, edge after edge.\<close>

fun scatter_add :: "tensor2 \<Rightarrow> (nat \<times> vec) list \<Rightarrow> tensor2" where
  "scatter_add out [] = out"
| "scatter_add out ((i, v) # rest) = scatter_add (out[i := map2 (+) (out ! i) v]) rest"

definition zeros_like :: "tensor2 \<Rightarrow> tensor2" where
  "zeros_like x = map (map (\<lambda>_. 0)) x"

text \<open>
  A tensor that a caller passes in whatever shape it has (the argument \<open>atomref\<close>): its
  shape and its entries in row-major order, as many as the product of the shape.
\<close>

record tensor =
  shape :: "nat list"
  entries :: "real list"

text \<open>
  \<open>dst.copy_(src)\<close> for a destination of rank 2. The source is broadcast to the shape of
  the destination: its dimensions are aligned with those of the destination from the
  last one backwards, and each must be 1 or the size of the destination there; a source
  of higher rank than the destination never broadcasts to it. The copy overwrites every
  entry of the destination, and raises when the source does not broadcast.
\<close>

fun broadcasts_to :: "nat list \<Rightarrow> nat \<Rightarrow> nat \<Rightarrow> bool" where
  "broadcasts_to [] rows cols = True"
| "broadcasts_to [c] rows cols = (c = cols \<or> c = 1)"
| "broadcasts_to [r, c] rows cols = ((r = rows \<or> r = 1) \<and> (c = cols \<or> c = 1))"
| "broadcasts_to (a # b # c # s) rows cols = False"

fun broadcast_index :: "nat list \<Rightarrow> nat \<Rightarrow> nat \<Rightarrow> nat" where
  "broadcast_index [] i j = 0"
| "broadcast_index [c] i j = (if c = 1 then 0 else j)"
| "broadcast_index [r, c] i j = (if r = 1 then 0 else i) * c + (if c = 1 then 0 else j)"
| "broadcast_index (a # b # c # s) i j = 0"

definition copy_into :: "tensor2 \<Rightarrow> tensor \<Rightarrow> error + tensor2" where
  "copy_into dst src =
     (let rows = length dst;
          cols = (case dst of [] \<Rightarrow> 0 | r # _ \<Rightarrow> length r)
      in if broadcasts_to (shape src) rows cols
         then Inr (map (\<lambda>i. map (\<lambda>j. entries src ! broadcast_index (shape src) i j) [0..<cols])
                     [0..<rows])
         else Inl BroadcastError)"

section \<open>CFConv\<close>

text \<open>
  \<open>CFConv\<close> is a \<open>MessagePassing\<close> layer with \<open>aggr='add'\<close>. Its field \<open>net\<close> is
  the \<open>Sequential\<close> object that the enclosing interaction block also calls
  \<open>self.mlp\<close>: one object with two names, kept here once, inside the convolution.
  \<open>cutoff\<close> is the \<open>CosineCutoff\<close> module, which lives in
  \<open>torchmdnet/models/utils.py\<close>; it maps every distance to its envelope value and is a
  parameter of the model.
\<close>

record CFConv =
  conv_lin1 :: Linear
  conv_lin2 :: Linear
  net :: Sequential
  cutoff :: "real \<Rightarrow> real"

text \<open>\<open>CFConv.message\<close>: \<open>x_j * W\<close>, elementwise on two (E, num_filters) tensors.\<close>

definition message :: "tensor2 \<Rightarrow> tensor2 \<Rightarrow> tensor2" where
  "message x_j W = map2 (map2 (*)) x_j W"

text \<open>
  \<open>MessagePassing.propagate\<close> with the default flow (source to target): \<open>x_j\<close> gathers
  the rows of \<open>x\<close> at \<open>edge_index[0]\<close>, the messages are summed into the rows
  \<open>edge_index[1]\<close> of a zero tensor with one row per node, and the update step is the
  identity.
\<close>

definition propagate :: "(nat \<times> nat) list \<Rightarrow> tensor2 \<Rightarrow> tensor2 \<Rightarrow> error + tensor2" where
  "propagate edge_index x W =
     (case index_select x (map fst edge_index) of
        Inl e \<Rightarrow> Inl e
      | Inr x_j \<Rightarrow>
          if list_all (\<lambda>i. i < length x) (map snd edge_index)
          then Inr (scatter_add (zeros_like x) (zip (map snd edge_index) (message x_j W)))
          else Inl IndexError)"

definition CFConv_forward ::
  "CFConv \<Rightarrow> tensor2 \<Rightarrow> (nat \<times> nat) list \<Rightarrow> vec \<Rightarrow> tensor2 \<Rightarrow> error + tensor2" where
  "CFConv_forward c x edge_index edge_weight edge_attr =
     (let C = map (cutoff c) edge_weight;
          W = map2 (\<lambda>row k. map (\<lambda>v. v * k) row) (Sequential_forward (net c) edge_attr) C;
          x1 = Linear_forward (conv_lin1 c) x
      in case propagate edge_index x1 W of
           Inl e \<Rightarrow> Inl e
         | Inr x2 \<Rightarrow> Inr (Linear_forward (conv_lin2 c) x2))"


section \<open>Random initialisation\<close>

text \<open>
  The initialisers of \<open>torch.nn.init\<close> overwrite a tensor with fresh draws of the
  default random generator. The generator is modelled by the two streams of numbers it
  will return (as uniform draws in [0, 1) and as standard normal draws) and the position
  reached in them; every initialiser returns the advanced generator.
\<close>

record generator =
  uniform01 :: "nat \<Rightarrow> real"
  normal01 :: "nat \<Rightarrow> real"
  cursor :: nat

definition rand_uniform :: "real \<Rightarrow> nat \<Rightarrow> nat \<Rightarrow> generator \<Rightarrow> tensor2 \<times> generator" where
  "rand_uniform a rows cols g =
     (map (\<lambda>r. map (\<lambda>k. a * (2 * uniform01 g (cursor g + r * cols + k) - 1)) [0..<cols])
        [0..<rows],
      g\<lparr>cursor := cursor g + rows * cols\<rparr>)"

definition rand_normal :: "nat \<Rightarrow> nat \<Rightarrow> generator \<Rightarrow> tensor2 \<times> generator" where
  "rand_normal rows cols g =
     (map (\<lambda>r. map (\<lambda>k. normal01 g (cursor g + r * cols + k)) [0..<cols]) [0..<rows],
      g\<lparr>cursor := cursor g + rows * cols\<rparr>)"

text \<open>\<open>nn.init.xavier_uniform_\<close> (gain 1): uniform on \<open>[-a, a)\<close> with
  \<open>a = sqrt (6 / (fan_in + fan_out))\<close>, in the shape the tensor already has. The
  quotient is that of a weight with rows or columns, as the layers of a network with
  positive sizes have.\<close>

definition xavier_uniform :: "tensor2 \<Rightarrow> generator \<Rightarrow> tensor2 \<times> generator" where
  "xavier_uniform W g =
     (let fan_out = length W;
          fan_in = (case W of [] \<Rightarrow> 0 | w # _ \<Rightarrow> length w)
      in rand_uniform (sqrt (6 / real (fan_in + fan_out))) fan_out fan_in g)"

text \<open>\<open>bias.data.fill_(0)\<close>.\<close>

definition fill_0 :: "real list option \<Rightarrow> real list option" where
  "fill_0 b = map_option (map (\<lambda>_. 0)) b"

text \<open>The constructor of \<open>nn.Linear\<close>: weight and bias are drawn uniformly within
  \<open>1 / sqrt in_features\<close> of zero.\<close>

definition Linear_init :: "nat \<Rightarrow> nat \<Rightarrow> bool \<Rightarrow> generator \<Rightarrow> Linear \<times> generator" where
  "Linear_init in_features out_features with_bias g =
     (let k = (if 0 < in_features then 1 / sqrt (real in_features) else 0);
          (W, g1) = rand_uniform k out_features in_features g
      in if with_bias
         then (let (b, g2) = rand_uniform k 1 out_features g1
               in (\<lparr>weight = W, bias = Some (concat b)\<rparr>, g2))
         else (\<lparr>weight = W, bias = None\<rparr>, g1))"

section \<open>What the module imports\<close>

text \<open>
  The source imports \<open>radius_graph\<close> from \<open>torch_geometric\<close>, the atomic masses from
  \<open>ase\<close>, and \<open>NeighborEmbedding\<close>, \<open>CosineCutoff\<close>, \<open>rbf_class_mapping\<close> and
  \<open>act_class_mapping\<close> from \<open>torchmdnet.models.utils\<close>. None of them is part of the
  file modelled here; they are parameters of the model, gathered in one record.
  A registry is an association list, in the order of the dictionary's keys. A radial
  basis class is called with \<open>(cutoff_lower, cutoff_upper, num_rbf, trainable)\<close> and gives
  the expansion of one distance; an activation class gives an elementwise function;
  the neighbor embedding is called with \<open>(z, h, edge_index, edge_weight, edge_attr)\<close>.
\<close>

type_synonym neighbor_embedding_forward =
  "nat list \<Rightarrow> tensor2 \<Rightarrow> (nat \<times> nat) list \<Rightarrow> vec \<Rightarrow> tensor2 \<Rightarrow> tensor2"

record environment =
  radius_graph :: "vec list \<Rightarrow> real \<Rightarrow> nat list \<Rightarrow> (nat \<times> nat) list"
  atomic_masses :: "real list"
  rbf_class_mapping :: "(string \<times> (real \<Rightarrow> real \<Rightarrow> nat \<Rightarrow> bool \<Rightarrow> real \<Rightarrow> vec)) list"
  act_class_mapping :: "(string \<times> (real \<Rightarrow> real)) list"
  NeighborEmbedding ::
    "nat \<Rightarrow> nat \<Rightarrow> real \<Rightarrow> real \<Rightarrow> generator \<Rightarrow> neighbor_embedding_forward \<times> generator"
  CosineCutoff :: "real \<Rightarrow> real \<Rightarrow> real \<Rightarrow> real"

section \<open>Construction and re-initialisation of the modules\<close>

definition CFConv_reset_parameters :: "CFConv \<Rightarrow> generator \<Rightarrow> CFConv \<times> generator" where
  "CFConv_reset_parameters c g =
     (let (W1, g1) = xavier_uniform (weight (conv_lin1 c)) g;
          c1 = c\<lparr>conv_lin1 := (conv_lin1 c)\<lparr>weight := W1\<rparr>\<rparr>;
          (W2, g2) = xavier_uniform (weight (conv_lin2 c1)) g1;
          c2 = c1\<lparr>conv_lin2 := (conv_lin2 c1)\<lparr>weight := W2\<rparr>\<rparr>;
          c3 = c2\<lparr>conv_lin2 := (conv_lin2 c2)\<lparr>bias := fill_0 (bias (conv_lin2 c2))\<rparr>\<rparr>
      in (c3, g2))"

definition CFConv_init ::
  "environment \<Rightarrow> nat \<Rightarrow> nat \<Rightarrow> nat \<Rightarrow> Sequential \<Rightarrow> real \<Rightarrow> real \<Rightarrow> generator
     \<Rightarrow> CFConv \<times> generator" where
  "CFConv_init env in_channels out_channels n_filters net_arg cutoff_lo cutoff_up g =
     (let (l1, g1) = Linear_init in_channels n_filters False g;
          (l2, g2) = Linear_init n_filters out_channels True g1
      in CFConv_reset_parameters
           \<lparr>conv_lin1 = l1, conv_lin2 = l2, net = net_arg,
            cutoff = CosineCutoff env cutoff_lo cutoff_up\<rparr> g2)"

text \<open>
  An interaction block. \<open>self.mlp\<close> and \<open>self.conv.net\<close> are the same object, so the
  block reaches its filter network through the convolution.
\<close>

record InteractionBlock =
  conv :: CFConv
  block_act :: "real \<Rightarrow> real"
  lin :: Linear

definition mlp :: "InteractionBlock \<Rightarrow> Sequential" where
  "mlp b = net (conv b)"

definition mlp_update :: "(Sequential \<Rightarrow> Sequential) \<Rightarrow> InteractionBlock \<Rightarrow> InteractionBlock" where
  "mlp_update f b = b\<lparr>conv := (conv b)\<lparr>net := f (net (conv b))\<rparr>\<rparr>"

text \<open>\<open>InteractionBlock.reset_parameters\<close>, statement by statement. The fourth
  statement of the source fills the bias of \<open>mlp[0]\<close>, as the second does.\<close>

definition InteractionBlock_reset_parameters ::
  "InteractionBlock \<Rightarrow> generator \<Rightarrow> InteractionBlock \<times> generator" where
  "InteractionBlock_reset_parameters b g =
     (let (W0, g1) = xavier_uniform (weight (mlp_0 (mlp b))) g;
          b1 = mlp_update (\<lambda>s. s\<lparr>mlp_0 := (mlp_0 s)\<lparr>weight := W0\<rparr>\<rparr>) b;
          b2 = mlp_update (\<lambda>s. s\<lparr>mlp_0 := (mlp_0 s)\<lparr>bias := fill_0 (bias (mlp_0 s))\<rparr>\<rparr>) b1;
          (W2, g2) = xavier_uniform (weight (mlp_2 (mlp b2))) g1;
          b3 = mlp_update (\<lambda>s. s\<lparr>mlp_2 := (mlp_2 s)\<lparr>weight := W2\<rparr>\<rparr>) b2;
          b4 = mlp_update (\<lambda>s. s\<lparr>mlp_0 := (mlp_0 s)\<lparr>bias := fill_0 (bias (mlp_0 s))\<rparr>\<rparr>) b3;
          (c, g3) = CFConv_reset_parameters (conv b4) g2;
          b5 = b4\<lparr>conv := c\<rparr>;
          (Wl, g4) = xavier_uniform (weight (lin b5)) g3;
          b6 = b5\<lparr>lin := (lin b5)\<lparr>weight := Wl\<rparr>\<rparr>;
          b7 = b6\<lparr>lin := (lin b6)\<lparr>bias := fill_0 (bias (lin b6))\<rparr>\<rparr>
      in (b7, g4))"

definition InteractionBlock_init ::
  "environment \<Rightarrow> nat \<Rightarrow> nat \<Rightarrow> nat \<Rightarrow> (real \<Rightarrow> real) \<Rightarrow> real \<Rightarrow> real \<Rightarrow> generator
     \<Rightarrow> InteractionBlock \<times> generator" where
  "InteractionBlock_init env hidden n_rbf n_filters activation_class cutoff_lo cutoff_up g =
     (let (l0, g1) = Linear_init n_rbf n_filters True g;
          (l2, g2) = Linear_init n_filters n_filters True g1;
          the_mlp = \<lparr>mlp_0 = l0, mlp_1 = activation_class, mlp_2 = l2\<rparr>;
          (c, g3) = CFConv_init env hidden hidden n_filters the_mlp cutoff_lo cutoff_up g2;
          (l, g4) = Linear_init hidden hidden True g3
      in InteractionBlock_reset_parameters
           \<lparr>conv = c, block_act = activation_class, lin = l\<rparr> g4)"


section \<open>TorchMD_GN: construction\<close>

text \<open>
  The arguments of the constructor are a record, and the module is that record (each
  argument is stored under its own name, \<open>readout\<close> after the adjustment for dipole
  mode) extended by the buffers and submodules. Two attributes of the source are
  rebound to a value of another type and have a second name here: the attribute
  \<open>self.neighbor_embedding\<close> ends as the module or \<open>None\<close>, which is
  \<open>neighbor_embedding_module\<close>; \<open>self.atomref\<close> ends as an \<open>nn.Embedding(100, 1)\<close> or
  \<open>None\<close>, whose weight is \<open>atomref_embedding\<close>.
\<close>

record kwargs =
  hidden_channels :: nat
  num_filters :: nat
  num_interactions :: nat
  num_rbf :: nat
  rbf_type :: string
  trainable_rbf :: bool
  activation :: string
  neighbor_embedding :: bool
  cutoff_lower :: real
  cutoff_upper :: real
  readout :: string
  dipole :: bool
  mean :: "real option"
  std :: "real option"
  atomref :: "tensor option"
  derivative :: bool
  atom_filter :: int

record TorchMD_GN = kwargs +
  atomic_mass :: "real list"
  embedding :: tensor2
  distance_expansion :: "real \<Rightarrow> vec"
  neighbor_embedding_module :: "neighbor_embedding_forward option"
  interactions :: "InteractionBlock list"
  lin1 :: Linear
  act :: "real \<Rightarrow> real"
  lin2 :: Linear
  initial_atomref :: "tensor option"
  atomref_embedding :: "tensor2 option"

fun reset_interactions ::
  "InteractionBlock list \<Rightarrow> generator \<Rightarrow> InteractionBlock list \<times> generator" where
  "reset_interactions [] g = ([], g)"
| "reset_interactions (b # bs) g =
     (let (b', g1) = InteractionBlock_reset_parameters b g;
          (bs', g2) = reset_interactions bs g1
      in (b' # bs', g2))"

text \<open>
  \<open>TorchMD_GN.reset_parameters\<close>. Its last statement copies \<open>initial_atomref\<close> into
  the weight of the reference embedding when there is one, and fails as that copy does.
\<close>

definition TorchMD_GN_reset_parameters ::
  "TorchMD_GN \<Rightarrow> generator \<Rightarrow> error + TorchMD_GN \<times> generator" where
  "TorchMD_GN_reset_parameters m g =
     (let (emb, g1) =
            rand_normal (length (embedding m))
              (case embedding m of [] \<Rightarrow> 0 | r # _ \<Rightarrow> length r) g;
          m1 = m\<lparr>embedding := emb\<rparr>;
          (blocks, g2) = reset_interactions (interactions m1) g1;
          m2 = m1\<lparr>interactions := blocks\<rparr>;
          (W1, g3) = xavier_uniform (weight (lin1 m2)) g2;
          m3 = m2\<lparr>lin1 := (lin1 m2)\<lparr>weight := W1\<rparr>\<rparr>;
          m4 = m3\<lparr>lin1 := (lin1 m3)\<lparr>bias := fill_0 (bias (lin1 m3))\<rparr>\<rparr>;
          (W2, g4) = xavier_uniform (weight (lin2 m4)) g3;
          m5 = m4\<lparr>lin2 := (lin2 m4)\<lparr>weight := W2\<rparr>\<rparr>;
          m6 = m5\<lparr>lin2 := (lin2 m5)\<lparr>bias := fill_0 (bias (lin2 m5))\<rparr>\<rparr>
      in case atomref_embedding m6 of
           None \<Rightarrow> Inr (m6, g4)
         | Some w \<Rightarrow>
            (case initial_atomref m6 of
               None \<Rightarrow> Inl TypeError
             | Some a \<Rightarrow>
                (case copy_into w a of
                   Inl e \<Rightarrow> Inl e
                 | Inr w' \<Rightarrow> Inr (m6\<lparr>atomref_embedding := Some w'\<rparr>, g4))))"

text \<open>The loop \<open>for _ in range(num_interactions)\<close> of the constructor.\<close>

fun build_interactions ::
  "environment \<Rightarrow> nat \<Rightarrow> nat \<Rightarrow> nat \<Rightarrow> nat \<Rightarrow> (real \<Rightarrow> real) \<Rightarrow> real \<Rightarrow> real \<Rightarrow> generator
     \<Rightarrow> InteractionBlock list \<times> generator" where
  "build_interactions env 0 hidden n_rbf n_filters act_class lo up g = ([], g)"
| "build_interactions env (Suc n) hidden n_rbf n_filters act_class lo up g =
     (let (b, g1) = InteractionBlock_init env hidden n_rbf n_filters act_class lo up g;
          (bs, g2) = build_interactions env n hidden n_rbf n_filters act_class lo up g1
      in (b # bs, g2))"

text \<open>\<open>", ".join(keys)\<close> and the two messages of the asserts.\<close>

fun join :: "string \<Rightarrow> string list \<Rightarrow> string" where
  "join sep [] = []"
| "join sep [x] = x"
| "join sep (x # y # ys) = x @ sep @ join sep (y # ys)"

definition unknown_rbf_message :: "string \<Rightarrow> string list \<Rightarrow> string" where
  "unknown_rbf_message name keys =
     ''Unknown RBF type '' @ [CHR 0x22] @ name @ [CHR 0x22] @ ''. Choose from ''
       @ join '', '' keys @ ''.''"

definition unknown_activation_message :: "string \<Rightarrow> string list \<Rightarrow> string" where
  "unknown_activation_message name keys =
     ''Unknown activation function '' @ [CHR 0x22] @ name @ [CHR 0x22] @ ''. Choose from ''
       @ join '', '' keys @ ''.''"

text \<open>
  \<open>TorchMD_GN.__init__\<close>. The three asserts come first, in the order of the source;
  then the attributes, the submodules in the order in which they draw from the
  generator, the reference embedding (a table of 100 rows and 1 column, drawn and then
  overwritten by the copy of \<open>atomref\<close>, which raises for a shape that does not broadcast to
  the table), and the closing call of \<open>reset_parameters\<close>. The constructors of the
  imported classes are taken to return.
\<close>

definition TorchMD_GN_init :: "environment \<Rightarrow> kwargs \<Rightarrow> generator \<Rightarrow> error + TorchMD_GN" where
  "TorchMD_GN_init env kw g =
     (if readout kw \<notin> set [''add'', ''sum'', ''mean''] then Inl (AssertionError None)
      else case map_of (rbf_class_mapping env) (rbf_type kw) of
        None \<Rightarrow>
          Inl (AssertionError (Some (unknown_rbf_message (rbf_type kw)
                 (map fst (rbf_class_mapping env)))))
      | Some rbf_class \<Rightarrow>
      (case map_of (act_class_mapping env) (activation kw) of
        None \<Rightarrow>
          Inl (AssertionError (Some (unknown_activation_message (activation kw)
                 (map fst (act_class_mapping env)))))
      | Some act_class \<Rightarrow>
          (let (emb, g1) = rand_normal 100 (hidden_channels kw) g;
               expansion = rbf_class (cutoff_lower kw) (cutoff_upper kw) (num_rbf kw)
                             (trainable_rbf kw);
               (nbr, g2) =
                 (if neighbor_embedding kw
                  then (let (f, g') = NeighborEmbedding env (hidden_channels kw) (num_rbf kw)
                                        (cutoff_lower kw) (cutoff_upper kw) g1
                        in (Some f, g'))
                  else (None, g1));
               (blocks, g3) =
                 build_interactions env (num_interactions kw) (hidden_channels kw) (num_rbf kw)
                   (num_filters kw) act_class (cutoff_lower kw) (cutoff_upper kw) g2;
               (l1, g4) = Linear_init (hidden_channels kw) (hidden_channels kw div 2) True g3;
               (l2, g5) = Linear_init (hidden_channels kw div 2) 1 True g4;
               reference =
                 (case atomref kw of
                    None \<Rightarrow> Inr (None, g5)
                  | Some a \<Rightarrow>
                     (let (w, g') = rand_normal 100 1 g5
                      in case copy_into w a of
                           Inl e \<Rightarrow> Inl e
                         | Inr w' \<Rightarrow> Inr (Some w', g')))
           in case reference of
                Inl e \<Rightarrow> Inl e
              | Inr (aref, g6) \<Rightarrow>
              (case TorchMD_GN_reset_parameters
                \<lparr>hidden_channels = hidden_channels kw,
                 num_filters = num_filters kw,
                 num_interactions = num_interactions kw,
                 num_rbf = num_rbf kw,
                 rbf_type = rbf_type kw,
                 trainable_rbf = trainable_rbf kw,
                 activation = activation kw,
                 neighbor_embedding = neighbor_embedding kw,
                 cutoff_lower = cutoff_lower kw,
                 cutoff_upper = cutoff_upper kw,
                 readout = (if dipole kw then ''add'' else readout kw),
                 dipole = dipole kw,
                 mean = mean kw,
                 std = std kw,
                 atomref = atomref kw,
                 derivative = derivative kw,
                 atom_filter = atom_filter kw,
                 atomic_mass = atomic_masses env,
                 embedding = emb,
                 distance_expansion = expansion,
                 neighbor_embedding_module = nbr,
                 interactions = blocks,
                 lin1 = l1,
                 act = act_class,
                 lin2 = l2,
                 initial_atomref = atomref kw,
                 atomref_embedding = aref\<rparr> g6 of
                 Inl e \<Rightarrow> Inl e
               | Inr (m, g7) \<Rightarrow> Inr m))))"


section \<open>The forward pass\<close>

text \<open>\<open>InteractionBlock.forward\<close>: the convolution, the activation, the mixing layer.\<close>

definition InteractionBlock_forward ::
  "InteractionBlock \<Rightarrow> tensor2 \<Rightarrow> (nat \<times> nat) list \<Rightarrow> vec \<Rightarrow> tensor2 \<Rightarrow> error + tensor2" where
  "InteractionBlock_forward b x edge_index edge_weight edge_attr =
     (case CFConv_forward (conv b) x edge_index edge_weight edge_attr of
        Inl e \<Rightarrow> Inl e
      | Inr x1 \<Rightarrow> Inr (Linear_forward (lin b) (map (map (block_act b)) x1)))"

text \<open>The loop \<open>for interaction in self.interactions: h = h + interaction(...)\<close>.\<close>

fun run_interactions ::
  "InteractionBlock list \<Rightarrow> tensor2 \<Rightarrow> (nat \<times> nat) list \<Rightarrow> vec \<Rightarrow> tensor2 \<Rightarrow> error + tensor2" where
  "run_interactions [] h edge_index edge_weight edge_attr = Inr h"
| "run_interactions (b # bs) h edge_index edge_weight edge_attr =
     (case InteractionBlock_forward b h edge_index edge_weight edge_attr of
        Inl e \<Rightarrow> Inl e
      | Inr y \<Rightarrow> run_interactions bs (map2 (map2 (+)) h y) edge_index edge_weight edge_attr)"

text \<open>\<open>t.norm(dim=-1)\<close>: the Euclidean norm of every row.\<close>

definition norm_row :: "vec \<Rightarrow> real" where
  "norm_row r = sqrt (sum_list (map (\<lambda>v. v * v) r))"

text \<open>
  Lines 142 to 153 of \<open>forward\<close>: the embedding of the atomic numbers (a table of 100
  rows: a larger atomic number raises), the neighbor graph, the distance and the radial
  features of every edge, the optional neighbor embedding, and the interaction blocks
  with their residual sums.
\<close>

definition atom_features ::
  "environment \<Rightarrow> TorchMD_GN \<Rightarrow> nat list \<Rightarrow> vec list \<Rightarrow> nat list \<Rightarrow> error + tensor2" where
  "atom_features env m z pos batch =
     (case index_select (embedding m) z of
        Inl e \<Rightarrow> Inl e
      | Inr h \<Rightarrow>
         (let edge_index = radius_graph env pos (cutoff_upper m) batch
          in case index_select pos (map fst edge_index) of
               Inl e \<Rightarrow> Inl e
             | Inr pos_row \<Rightarrow>
                (case index_select pos (map snd edge_index) of
                   Inl e \<Rightarrow> Inl e
                 | Inr pos_col \<Rightarrow>
                    (let edge_weight = map norm_row (map2 (map2 (-)) pos_row pos_col);
                         edge_attr = map (distance_expansion m) edge_weight;
                         h1 = (case neighbor_embedding_module m of
                                 None \<Rightarrow> h
                               | Some f \<Rightarrow> f z h edge_index edge_weight edge_attr)
                     in run_interactions (interactions m) h1 edge_index edge_weight
                          edge_attr))))"

text \<open>Indexing with a boolean mask, \<open>t[mask]\<close>: the rows where the mask is true, in
  order; a mask of another length raises.\<close>

definition mask_index :: "'a list \<Rightarrow> bool list \<Rightarrow> error + 'a list" where
  "mask_index xs msk =
     (if length msk = length xs then Inr (map fst (filter snd (zip xs msk)))
      else Inl IndexError)"

text \<open>
  Line 156, \<open>z > self.atom_filter\<close>, compares a tensor of 64-bit signed integers with a
  Python integer, which has no bound. The library first makes the integer a 64-bit
  scalar: a value of the signed range is kept; a value from \<open>2^63\<close> to \<open>2^64 - 1\<close> is taken
  as an unsigned scalar and, compared with the signed tensor, is read as the negative
  number that has the same 64 bits; any other value raises. The comparison is then that
  of the entries of \<open>z\<close> with this number.
\<close>

definition wrap64 :: "int \<Rightarrow> int" where
  "wrap64 k = (if 2 ^ 63 \<le> k then k - 2 ^ 64 else k)"

definition int64_scalar :: "int \<Rightarrow> error + int" where
  "int64_scalar k =
     (if - (2 ^ 63) \<le> k \<and> k < 2 ^ 64 then Inr (wrap64 k) else Inl OverflowError)"

definition atom_mask :: "TorchMD_GN \<Rightarrow> nat list \<Rightarrow> error + bool list" where
  "atom_mask m z =
     (case int64_scalar (atom_filter m) of
        Inl e \<Rightarrow> Inl e
      | Inr k \<Rightarrow> Inr (map (\<lambda>a. k < int a) z))"

text \<open>Lines 156 to 160: the four tensors are indexed with the one mask
  \<open>z > self.atom_filter\<close>.\<close>

definition filter_atoms ::
  "TorchMD_GN \<Rightarrow> tensor2 \<Rightarrow> nat list \<Rightarrow> vec list \<Rightarrow> nat list
     \<Rightarrow> error + (tensor2 \<times> nat list \<times> vec list \<times> nat list)" where
  "filter_atoms m h z pos batch =
     (case atom_mask m z of
        Inl e \<Rightarrow> Inl e
      | Inr msk \<Rightarrow>
         (case mask_index h msk of
            Inl e \<Rightarrow> Inl e
          | Inr h' \<Rightarrow>
             (case mask_index z msk of
                Inl e \<Rightarrow> Inl e
              | Inr z' \<Rightarrow>
                 (case mask_index pos msk of
                    Inl e \<Rightarrow> Inl e
                  | Inr pos' \<Rightarrow>
                     (case mask_index batch msk of
                        Inl e \<Rightarrow> Inl e
                      | Inr batch' \<Rightarrow> Inr (h', z', pos', batch'))))))"

text \<open>Line 137: \<open>batch = torch.zeros_like(z) if batch is None else batch\<close>.\<close>

definition batch_of :: "nat list \<Rightarrow> nat list option \<Rightarrow> nat list" where
  "batch_of z batch_arg = (case batch_arg of None \<Rightarrow> map (\<lambda>_. 0) z | Some b \<Rightarrow> b)"

text \<open>The indices of the atoms that the mask keeps.\<close>

definition remaining :: "TorchMD_GN \<Rightarrow> nat list \<Rightarrow> nat set" where
  "remaining m z = set (filter (\<lambda>i. wrap64 (atom_filter m) < int (z ! i)) [0..<length z])"

text \<open>The molecule ids of the atoms that the mask keeps; every atom is in molecule 0
  when \<open>batch\<close> is omitted.\<close>

definition molecule_ids :: "TorchMD_GN \<Rightarrow> nat list \<Rightarrow> nat list option \<Rightarrow> nat list" where
  "molecule_ids m z batch_arg =
     nths (batch_of z batch_arg) (remaining m z)"

text \<open>
  \<open>torch_scatter.scatter(src, index, dim=0, reduce=...)\<close> without \<open>dim_size\<close>: the
  result has \<open>max(index) + 1\<close> rows, none for an empty index. \<open>sum\<close> and \<open>add\<close> add
  the rows of every group; \<open>mean\<close> divides the sums by the size of the group, taken as 1
  for an empty group. The constructor admits no other reduction, and the model raises
  for them. \<open>index\<close> has one entry per row of \<open>src\<close> wherever \<open>forward\<close> calls it.
\<close>

definition scatter_sum :: "tensor2 \<Rightarrow> nat list \<Rightarrow> tensor2" where
  "scatter_sum src index =
     (case index of
        [] \<Rightarrow> []
      | _ # _ \<Rightarrow>
          scatter_add
            (replicate (Max (set index) + 1)
               (replicate (case src of [] \<Rightarrow> 0 | r # _ \<Rightarrow> length r) 0))
            (zip index src))"

definition scatter_mean :: "tensor2 \<Rightarrow> nat list \<Rightarrow> tensor2" where
  "scatter_mean src index =
     map2 (\<lambda>row n. map (\<lambda>v. v / max 1 (sum_list n)) row)
       (scatter_sum src index) (scatter_sum (map (\<lambda>_. [1]) index) index)"

definition scatter :: "tensor2 \<Rightarrow> nat list \<Rightarrow> string \<Rightarrow> error + tensor2" where
  "scatter src index reduce =
     (if reduce = ''sum'' \<or> reduce = ''add'' then Inr (scatter_sum src index)
      else if reduce = ''mean'' then Inr (scatter_mean src index)
      else Inl ValueError)"

text \<open>An elementwise operation on two rows where one of them may have a single entry,
  which is then broadcast: \<open>(N, 1) * (N, 3)\<close>.\<close>

definition broadcast :: "(real \<Rightarrow> real \<Rightarrow> real) \<Rightarrow> vec \<Rightarrow> vec \<Rightarrow> vec" where
  "broadcast f a b =
     (if length a = 1 then map (f (hd a)) b
      else if length b = 1 then map (\<lambda>x. f x (hd b)) a
      else map2 f a b)"

text \<open>Lines 163 to 165: the output network.\<close>

definition output_network :: "TorchMD_GN \<Rightarrow> tensor2 \<Rightarrow> tensor2" where
  "output_network m h =
     (let h1 = Linear_forward (lin1 m) h;
          h2 = map (map (act m)) h1
      in Linear_forward (lin2 m) h2)"

text \<open>
  Lines 169 to 171, the body of the dipole branch: the center of mass of every molecule
  from the table of atomic masses, and the scalar of every atom times its displacement
  from that center. A molecule id that no atom carries has total mass 0; its quotient is
  never read.
\<close>

definition dipole_vectors ::
  "TorchMD_GN \<Rightarrow> tensor2 \<Rightarrow> nat list \<Rightarrow> vec list \<Rightarrow> nat list \<Rightarrow> error + tensor2" where
  "dipole_vectors m h z pos batch =
     (case index_select (atomic_mass m) z of
        Inl e \<Rightarrow> Inl e
      | Inr ms \<Rightarrow>
         (let mass = map (\<lambda>x. [x]) ms;
              c = map2 (broadcast (/))
                    (scatter_sum (map2 (broadcast (*)) mass pos) batch)
                    (scatter_sum mass batch)
          in case index_select c batch of
               Inl e \<Rightarrow> Inl e
             | Inr cb \<Rightarrow> Inr (map2 (broadcast (*)) h (map2 (map2 (-)) pos cb))))"

text \<open>Lines 176 and 177: the reference correction.\<close>

definition reference_correction :: "TorchMD_GN \<Rightarrow> tensor2 \<Rightarrow> nat list \<Rightarrow> error + tensor2" where
  "reference_correction m h z =
     (if \<not> dipole m \<and> atomref_embedding m \<noteq> None
      then (case index_select (the (atomref_embedding m)) z of
              Inl e \<Rightarrow> Inl e
            | Inr a \<Rightarrow> Inr (map2 (map2 (+)) h a))
      else Inr h)"

text \<open>Lines 163 to 177: the output network, the dipole branch, the rescaling of lines
  173 and 174, and the reference correction.\<close>

definition per_atom ::
  "TorchMD_GN \<Rightarrow> tensor2 \<Rightarrow> nat list \<Rightarrow> vec list \<Rightarrow> nat list \<Rightarrow> error + tensor2" where
  "per_atom m h z pos batch =
     (let h3 = output_network m h
      in case (if dipole m then dipole_vectors m h3 z pos batch else Inr h3) of
           Inl e \<Rightarrow> Inl e
         | Inr h4 \<Rightarrow>
            (let h5 = (if \<not> dipole m \<and> mean m \<noteq> None \<and> std m \<noteq> None
                       then map (map (\<lambda>v. v * the (std m) + the (mean m))) h4
                       else h4)
             in reference_correction m h5 z))"

text \<open>
  Lines 135 to 182: the value of \<open>out\<close>, together with the value that the name \<open>pos\<close>
  holds once the atoms are filtered. The assert of line 136 holds of every list of
  naturals.
\<close>

definition forward_locals ::
  "environment \<Rightarrow> TorchMD_GN \<Rightarrow> nat list \<Rightarrow> vec list \<Rightarrow> nat list option
     \<Rightarrow> error + (tensor2 \<times> vec list)" where
  "forward_locals env m z pos batch_arg =
     (let batch = batch_of z batch_arg
      in case atom_features env m z pos batch of
           Inl e \<Rightarrow> Inl e
         | Inr h \<Rightarrow>
            (case filter_atoms m h z pos batch of
               Inl e \<Rightarrow> Inl e
             | Inr (h', z', pos', batch') \<Rightarrow>
                (case per_atom m h' z' pos' batch' of
                   Inl e \<Rightarrow> Inl e
                 | Inr v \<Rightarrow>
                    (case scatter v batch' (readout m) of
                       Inl e \<Rightarrow> Inl e
                     | Inr out \<Rightarrow>
                         Inr (if dipole m then map (\<lambda>r. [norm_row r]) out else out,
                              pos')))))"

definition forward_out ::
  "environment \<Rightarrow> TorchMD_GN \<Rightarrow> nat list \<Rightarrow> vec list \<Rightarrow> nat list option \<Rightarrow> error + tensor2" where
  "forward_out env m z pos batch_arg =
     (case forward_locals env m z pos batch_arg of
        Inl e \<Rightarrow> Inl e
      | Inr (out, pos') \<Rightarrow> Inr out)"


section \<open>The derivative\<close>

text \<open>
  \<open>torch.autograd.grad(out, pos, ...)\<close> differentiates \<open>out\<close> with respect to the
  tensor that the name \<open>pos\<close> holds at that line, and raises when that tensor is not
  among the tensors \<open>out\<close> was computed from (\<open>allow_unused\<close> is left at its default).
  What decides this is how the tensors of \<open>forward\<close> are computed from each other, not
  their values: \<open>graph_of\<close> follows \<open>forward\<close> statement by statement and gives, for
  \<open>out\<close> and for the final \<open>pos\<close>, the expression that computes it from the arguments,
  given which way each \<open>if\<close> of \<open>forward\<close> goes. An interaction block is one node over
  its four arguments.
\<close>

datatype var = Leaf string | Node string "var list"

fun occurs :: "var \<Rightarrow> var \<Rightarrow> bool" where
  "occurs x (Leaf n) = (x = Leaf n)"
| "occurs x (Node f args) = (x = Node f args \<or> list_ex (occurs x) args)"

definition graph_of ::
  "bool \<Rightarrow> bool \<Rightarrow> InteractionBlock list \<Rightarrow> bool \<Rightarrow> bool \<Rightarrow> bool \<Rightarrow> var \<times> var" where
  "graph_of batch_given with_neighbor_embedding blocks is_dipole rescaled corrected =
     (let z = Leaf ''z'';
          pos = Leaf ''pos'';
          batch = (if batch_given then Leaf ''batch'' else Node ''zeros_like'' [z]);
          h = Node ''embedding'' [z];
          edge_index = Node ''radius_graph'' [pos, batch];
          row = Node ''row'' [edge_index];
          col = Node ''col'' [edge_index];
          edge_weight = Node ''norm'' [Node ''sub'' [Node ''index'' [pos, row],
                                                     Node ''index'' [pos, col]]];
          edge_attr = Node ''distance_expansion'' [edge_weight];
          h = (if with_neighbor_embedding
               then Node ''neighbor_embedding'' [z, h, edge_index, edge_weight, edge_attr]
               else h);
          h = fold (\<lambda>_ h. Node ''add'' [h, Node ''interaction''
                                              [h, edge_index, edge_weight, edge_attr]])
                blocks h;
          atom_mask = Node ''gt'' [z, Leaf ''atom_filter''];
          h = Node ''index'' [h, atom_mask];
          z = Node ''index'' [z, atom_mask];
          pos = Node ''index'' [pos, atom_mask];
          batch = Node ''index'' [batch, atom_mask];
          h = Node ''lin1'' [h];
          h = Node ''act'' [h];
          h = Node ''lin2'' [h];
          h = (if is_dipole
               then (let mass = Node ''view'' [Node ''index'' [Leaf ''atomic_mass'', z]];
                         c = Node ''div'' [Node ''scatter'' [Node ''mul'' [mass, pos], batch],
                                           Node ''scatter'' [mass, batch]]
                     in Node ''mul'' [h, Node ''sub'' [pos, Node ''index'' [c, batch]]])
               else h);
          h = (if rescaled
               then Node ''add'' [Node ''mul'' [h, Leaf ''std''], Leaf ''mean'']
               else h);
          h = (if corrected
               then Node ''add'' [h, Node ''atomref'' [z]]
               else h);
          out = Node ''scatter'' [h, batch];
          out = (if is_dipole then Node ''norm'' [out] else out)
      in (out, pos))"

text \<open>The conditions of the five \<open>if\<close> statements of \<open>forward\<close>, as the module
  decides them.\<close>

definition forward_graph :: "TorchMD_GN \<Rightarrow> bool \<Rightarrow> var \<times> var" where
  "forward_graph m batch_given =
     graph_of batch_given
       (neighbor_embedding_module m \<noteq> None)
       (interactions m)
       (dipole m)
       (\<not> dipole m \<and> mean m \<noteq> None \<and> std m \<noteq> None)
       (\<not> dipole m \<and> atomref_embedding m \<noteq> None)"

definition autograd_grad :: "var \<Rightarrow> var \<Rightarrow> error + var" where
  "autograd_grad outputs inputs =
     (if occurs inputs outputs then Inr (Node ''grad'' [outputs, inputs])
      else Inl (RuntimeError
        ''One of the differentiated Tensors appears to not have been used in the graph. Set allow_unused=True if this is the desired behavior.''))"

text \<open>
  What \<open>forward\<close> returns: \<open>out\<close>, or the pair of \<open>out\<close> and \<open>dy\<close>. The values of a
  gradient are outside this model; \<open>dy\<close> is recorded as the negated gradient with
  respect to the tensor it is taken for, of which it has the shape.
\<close>

datatype forces = Neg_grad_wrt "vec list"

datatype returned = Out tensor2 | Out_dy tensor2 forces

definition forward ::
  "environment \<Rightarrow> TorchMD_GN \<Rightarrow> nat list \<Rightarrow> vec list \<Rightarrow> nat list option \<Rightarrow> error + returned" where
  "forward env m z pos batch_arg =
     (case forward_locals env m z pos batch_arg of
        Inl e \<Rightarrow> Inl e
      | Inr (out, pos') \<Rightarrow>
          if derivative m
          then (let (out_var, pos_var) = forward_graph m (batch_arg \<noteq> None)
                in case autograd_grad out_var pos_var of
                     Inl e \<Rightarrow> Inl e
                   | Inr dy \<Rightarrow> Inr (Out_dy out (Neg_grad_wrt pos')))
          else Inr (Out out))"


text \<open>The expression of the filtered positions: \<open>pos[atom_mask]\<close> with
  \<open>atom_mask = z > self.atom_filter\<close>.\<close>

definition masked_pos :: var where
  "masked_pos = Node ''index'' [Leaf ''pos'', Node ''gt'' [Leaf ''z'', Leaf ''atom_filter'']]"

section \<open>The convolution as the specification words it\<close>

text \<open>
  The six steps of the continuous-filter convolution, atom by atom and edge by edge:
  the filter of an edge is the feed-forward transform (two linear layers around one
  nonlinearity) of its radial features, times the envelope value at its distance; the
  message of an edge is the projection without bias of the sender's features, times the
  filter; an atom receives the sum of the messages of the edges that end in it, the
  zero vector when there is none; the sum is projected, with bias.
\<close>

definition feed_forward :: "Sequential \<Rightarrow> vec \<Rightarrow> vec" where
  "feed_forward S a =
     F_linear (map (mlp_1 S) (F_linear a (weight (mlp_0 S)) (bias (mlp_0 S))))
       (weight (mlp_2 S)) (bias (mlp_2 S))"

definition edge_filter :: "CFConv \<Rightarrow> real \<Rightarrow> vec \<Rightarrow> vec" where
  "edge_filter c d a = map (\<lambda>v. v * cutoff c d) (feed_forward (net c) a)"

definition project_no_bias :: "real list list \<Rightarrow> vec \<Rightarrow> vec" where
  "project_no_bias W x = map (\<lambda>w. sum_list (map2 (*) x w)) W"

definition project_with_bias :: "real list list \<Rightarrow> vec \<Rightarrow> vec \<Rightarrow> vec" where
  "project_with_bias W b x = map2 (+) (map (\<lambda>w. sum_list (map2 (*) x w)) W) b"

definition edge_message :: "CFConv \<Rightarrow> vec \<Rightarrow> real \<Rightarrow> vec \<Rightarrow> vec" where
  "edge_message c x_j d a =
     map2 (*) (project_no_bias (weight (conv_lin1 c)) x_j) (edge_filter c d a)"

definition vec_sum :: "nat \<Rightarrow> vec list \<Rightarrow> vec" where
  "vec_sum n ms = fold (\<lambda>m acc. map2 (+) acc m) ms (replicate n 0)"

definition incoming :: "(nat \<times> nat) list \<Rightarrow> nat \<Rightarrow> nat list" where
  "incoming edge_index i = filter (\<lambda>e. snd (edge_index ! e) = i) [0..<length edge_index]"

definition aggregated ::
  "CFConv \<Rightarrow> tensor2 \<Rightarrow> (nat \<times> nat) list \<Rightarrow> vec \<Rightarrow> tensor2 \<Rightarrow> nat \<Rightarrow> vec" where
  "aggregated c x edge_index edge_weight edge_attr i =
     vec_sum (length (weight (conv_lin1 c)))
       (map (\<lambda>e. edge_message c (x ! fst (edge_index ! e)) (edge_weight ! e) (edge_attr ! e))
          (incoming edge_index i))"

definition CFConv_spec ::
  "CFConv \<Rightarrow> vec \<Rightarrow> tensor2 \<Rightarrow> (nat \<times> nat) list \<Rightarrow> vec \<Rightarrow> tensor2 \<Rightarrow> tensor2" where
  "CFConv_spec c b2 x edge_index edge_weight edge_attr =
     map (\<lambda>i. project_with_bias (weight (conv_lin2 c)) b2
                 (aggregated c x edge_index edge_weight edge_attr i))
       [0..<length x]"

section \<open>Rigid transforms\<close>

text \<open>A rotation is a 3 by 3 matrix, given by its rows, with orthonormal columns and
  determinant 1; a rigid transform rotates a position and then translates it.\<close>

definition rotation3 :: "real list list \<Rightarrow> bool" where
  "rotation3 R =
     (length R = 3 \<and> list_all (\<lambda>r. length r = 3) R \<and>
      (let a = R ! 0 ! 0; b = R ! 0 ! 1; c = R ! 0 ! 2;
           d = R ! 1 ! 0; e = R ! 1 ! 1; f = R ! 1 ! 2;
           g = R ! 2 ! 0; h = R ! 2 ! 1; i = R ! 2 ! 2
       in a * a + d * d + g * g = 1 \<and> b * b + e * e + h * h = 1 \<and> c * c + f * f + i * i = 1 \<and>
          a * b + d * e + g * h = 0 \<and> a * c + d * f + g * i = 0 \<and> b * c + e * f + h * i = 0 \<and>
          a * (e * i - f * h) - b * (d * i - f * g) + c * (d * h - e * g) = 1))"

definition rigid :: "real list list \<Rightarrow> vec \<Rightarrow> vec \<Rightarrow> vec" where
  "rigid R t p = map2 (+) (map (\<lambda>r. sum_list (map2 (*) r p)) R) t"

section \<open>A concrete environment and a concrete model\<close>

text \<open>
  An instance of the imported names, to run the model on. The radius graph has an edge
  \<open>(j, i)\<close> for distinct atoms \<open>i\<close> and \<open>j\<close> of one molecule that are less than \<open>r\<close>
  apart, compared on squared distances, and at most 32 edges into one atom (the default
  \<open>max_num_neighbors\<close>): when an atom has more neighbors than that, this instance keeps
  the first 32 in the order of the atoms. The library takes the molecule ids in
  ascending order, so that a molecule is a range of consecutive atoms, and does not say
  what it returns otherwise; this instance then has no edge. The registries carry the
  keys of the project with functions of the expected types.
\<close>

definition sq_dist :: "vec \<Rightarrow> vec \<Rightarrow> real" where
  "sq_dist p q = sum_list (map (\<lambda>v. v * v) (map2 (-) p q))"

definition radius_graph_reference :: "vec list \<Rightarrow> real \<Rightarrow> nat list \<Rightarrow> (nat \<times> nat) list" where
  "radius_graph_reference pos r batch =
     (if sorted batch
      then concat (map (\<lambda>i. map (\<lambda>j. (j, i))
               (take 32
                  (filter (\<lambda>j. j \<noteq> i \<and> batch ! j = batch ! i \<and> 0 < r \<and>
                                sq_dist (pos ! j) (pos ! i) < r * r)
                     [0..<min (length pos) (length batch)])))
             [0..<min (length pos) (length batch)])
      else [])"

definition cosine_cutoff :: "real \<Rightarrow> real \<Rightarrow> real \<Rightarrow> real" where
  "cosine_cutoff lo up d = (if d < up then (cos (d * pi / up) + 1) / 2 else 0)"

definition gaussian_smearing :: "real \<Rightarrow> real \<Rightarrow> nat \<Rightarrow> bool \<Rightarrow> real \<Rightarrow> vec" where
  "gaussian_smearing lo up n trainable d =
     map (\<lambda>k. exp (- ((d - (lo + real k * (up - lo) / real n)) ^ 2))) [0..<n]"

definition neighbor_sum :: neighbor_embedding_forward where
  "neighbor_sum z h edge_index edge_weight edge_attr =
     (case propagate edge_index h (map (\<lambda>a. replicate 2 (sum_list a)) edge_attr) of
        Inl e \<Rightarrow> h
      | Inr y \<Rightarrow> map2 (map2 (+)) h y)"

definition example_env :: environment where
  "example_env =
     \<lparr>radius_graph = radius_graph_reference,
      atomic_masses = [1, 1.008, 4.0026, 6.94, 9.0122, 10.81, 12.011, 14.007, 15.999]
                        @ replicate 110 1,
      rbf_class_mapping = [(''gauss'', gaussian_smearing), (''expnorm'', gaussian_smearing)],
      act_class_mapping = [(''silu'', \<lambda>x. x / (1 + exp (- x))), (''tanh'', tanh)],
      NeighborEmbedding = (\<lambda>hidden n_rbf lo up g. (neighbor_sum, g)),
      CosineCutoff = cosine_cutoff\<rparr>"

definition example_conv :: CFConv where
  "example_conv =
     \<lparr>conv_lin1 = \<lparr>weight = [[1, 0], [0, 1]], bias = None\<rparr>,
      conv_lin2 = \<lparr>weight = [[1, 1], [1, -1]], bias = Some [0, 0]\<rparr>,
      net = \<lparr>mlp_0 = \<lparr>weight = [[1, 0], [0, 1]], bias = Some [0, 0]\<rparr>,
             mlp_1 = tanh,
             mlp_2 = \<lparr>weight = [[1, 2], [0, 1]], bias = Some [1, 0]\<rparr>\<rparr>,
      cutoff = cosine_cutoff 0 5\<rparr>"

definition example_block :: InteractionBlock where
  "example_block =
     \<lparr>conv = example_conv, block_act = tanh,
      lin = \<lparr>weight = [[1, 0], [0, 1]], bias = Some [0, 0]\<rparr>\<rparr>"

definition example_model :: TorchMD_GN where
  "example_model =
     \<lparr>hidden_channels = 2, num_filters = 2, num_interactions = 1, num_rbf = 2,
      rbf_type = ''gauss'', trainable_rbf = True, activation = ''tanh'',
      neighbor_embedding = False, cutoff_lower = 0, cutoff_upper = 5,
      readout = ''add'', dipole = False, mean = None, std = None, atomref = None,
      derivative = False, atom_filter = 0,
      atomic_mass = atomic_masses example_env,
      embedding = replicate 100 [1, 2],
      distance_expansion = gaussian_smearing 0 5 2 True,
      neighbor_embedding_module = None,
      interactions = [example_block],
      lin1 = \<lparr>weight = [[2, -1]], bias = Some [0]\<rparr>,
      act = tanh,
      lin2 = \<lparr>weight = [[3]], bias = Some [1 / 2]\<rparr>,
      initial_atomref = None,
      atomref_embedding = None\<rparr>"

definition example_kwargs :: kwargs where
  "example_kwargs =
     \<lparr>hidden_channels = 2, num_filters = 2, num_interactions = 1, num_rbf = 2,
      rbf_type = ''gauss'', trainable_rbf = True, activation = ''tanh'',
      neighbor_embedding = True, cutoff_lower = 0, cutoff_upper = 5,
      readout = ''mean'', dipole = True, mean = None, std = None, atomref = None,
      derivative = False, atom_filter = 0\<rparr>"

definition example_generator :: generator where
  "example_generator = \<lparr>uniform01 = (\<lambda>n. 1 / 4), normal01 = (\<lambda>n. 1), cursor = 0\<rparr>"


section \<open>The convolution computes the specified algorithm\<close>

lemma length_Linear_forward: "length (Linear_forward L X) = length X"
  by (simp add: Linear_forward_def)

lemma Linear_forward_nth:
  "i < length X \<Longrightarrow> Linear_forward L X ! i = F_linear (X ! i) (weight L) (bias L)"
  by (simp add: Linear_forward_def)

lemma length_zeros_like: "length (zeros_like x) = length x"
  by (simp add: zeros_like_def)

lemma length_scatter_add: "length (scatter_add out es) = length out"
  by (induction es arbitrary: out) auto

lemma scatter_add_nth:
  "i < length out \<Longrightarrow>
   scatter_add out es ! i =
     fold (\<lambda>m acc. map2 (+) acc m) (map snd (filter (\<lambda>p. fst p = i) es)) (out ! i)"
proof (induction es arbitrary: out)
  case Nil
  then show ?case by simp
next
  case (Cons p es)
  obtain k v where p: "p = (k, v)" by (cases p)
  show ?case using Cons.IH [of "out[k := map2 (+) (out ! k) v]"] Cons.prems
    by (simp add: p nth_list_update)
qed

lemma zip_filter_fst:
  assumes "length idx = length ms"
  shows "map snd (filter (\<lambda>p. fst p = i) (zip idx ms)) =
         map ((!) ms) (filter (\<lambda>e. idx ! e = i) [0..<length idx])"
proof -
  have "zip idx ms = map (\<lambda>e. (idx ! e, ms ! e)) [0..<length idx]"
    using assms by (intro nth_equalityI) auto
  then show ?thesis by (simp add: filter_map comp_def)
qed

lemma Sequential_forward_nth:
  "e < length X \<Longrightarrow> Sequential_forward S X ! e = feed_forward S (X ! e)"
  by (simp add: Sequential_forward_def Linear_forward_def feed_forward_def)

lemma length_Sequential_forward: "length (Sequential_forward S X) = length X"
  by (simp add: Sequential_forward_def Linear_forward_def)

text \<open>The constructor of \<open>CFConv\<close> builds the first projection without bias and the
  second with bias; re-initialisation keeps that.\<close>

lemma Linear_init_bias:
  "bias (fst (Linear_init i n with_bias g)) = None \<longleftrightarrow> \<not> with_bias"
  by (simp add: Linear_init_def Let_def split_def)

lemma CFConv_reset_parameters_bias:
  "bias (conv_lin1 (fst (CFConv_reset_parameters c g))) = bias (conv_lin1 c)"
  "bias (conv_lin2 (fst (CFConv_reset_parameters c g))) = fill_0 (bias (conv_lin2 c))"
  by (simp_all add: CFConv_reset_parameters_def Let_def split_def)

lemma CFConv_init_bias:
  "bias (conv_lin1 (fst (CFConv_init env i n k s lo up g))) = None"
  "bias (conv_lin2 (fst (CFConv_init env i n k s lo up g))) \<noteq> None"
  by (simp_all add: CFConv_init_def Let_def split_def CFConv_reset_parameters_bias
      Linear_init_bias fill_0_def)

text \<open>
  Claim C1. For a convolution whose first projection has no bias and whose second has
  the bias \<open>b2\<close> (as the constructor builds them), and an edge set whose indices are
  atoms of the system, with one distance and one radial feature vector per edge:
  \<open>CFConv.forward\<close> returns, for every atom, the projection with bias of the sum over
  the edges ending in that atom of the messages, each the product of the projection
  without bias of the sender's features and the filter of the edge (the feed-forward
  transform of the radial features times the envelope value); and an atom in which no
  edge ends aggregates the zero vector.
\<close>

theorem CFConv_forward_spec:
  assumes rng: "list_all (\<lambda>e. fst e < length x \<and> snd e < length x) edge_index"
    and lw: "length edge_weight = length edge_index"
    and la: "length edge_attr = length edge_index"
    and b1: "bias (conv_lin1 c) = None"
    and b2: "bias (conv_lin2 c) = Some b2"
  shows "CFConv_forward c x edge_index edge_weight edge_attr =
           Inr (CFConv_spec c b2 x edge_index edge_weight edge_attr) \<and>
         list_all (\<lambda>i. incoming edge_index i = [] \<longrightarrow>
             aggregated c x edge_index edge_weight edge_attr i =
               replicate (length (weight (conv_lin1 c))) 0) [0..<length x]"
proof -
  let ?x1 = "Linear_forward (conv_lin1 c) x"
  let ?W = "map2 (\<lambda>row k. map (\<lambda>v. v * k) row) (Sequential_forward (net c) edge_attr)
              (map (cutoff c) edge_weight)"
  let ?idx = "map snd edge_index"
  let ?xj = "map ((!) ?x1) (map fst edge_index)"
  let ?ms = "message ?xj ?W"
  have r1: "list_all (\<lambda>i. i < length ?x1) (map fst edge_index)"
    and r2: "list_all (\<lambda>i. i < length ?x1) ?idx"
    using rng by (auto simp: list_all_iff Linear_forward_def)
  have lms: "length ?idx = length ?ms"
    by (simp add: message_def length_Sequential_forward lw la)
  have pg: "propagate edge_index ?x1 ?W = Inr (scatter_add (zeros_like ?x1) (zip ?idx ?ms))"
    using r1 r2 by (simp add: propagate_def index_select_def)
  have msg: "?ms ! e = edge_message c (x ! fst (edge_index ! e)) (edge_weight ! e) (edge_attr ! e)"
    if "e < length edge_index" for e
  proof -
    have "fst (edge_index ! e) < length x"
      using rng that by (simp add: list_all_length)
    then show ?thesis using that lw la
      by (simp add: message_def edge_message_def edge_filter_def Sequential_forward_nth
          length_Sequential_forward Linear_forward_def F_linear_def b1 project_no_bias_def)
  qed
  have row: "scatter_add (zeros_like ?x1) (zip ?idx ?ms) ! i =
             aggregated c x edge_index edge_weight edge_attr i" if "i < length x" for i
  proof -
    have z: "zeros_like ?x1 ! i = replicate (length (weight (conv_lin1 c))) 0"
      using that
      by (simp add: zeros_like_def Linear_forward_def F_linear_def b1 map_replicate_const)
    have f: "filter (\<lambda>e. ?idx ! e = i) [0..<length ?idx] = incoming edge_index i"
      unfolding incoming_def by (rule filter_cong) auto
    have m: "map ((!) ?ms) (incoming edge_index i) =
             map (\<lambda>e. edge_message c (x ! fst (edge_index ! e)) (edge_weight ! e) (edge_attr ! e))
               (incoming edge_index i)"
    proof (rule map_cong [OF refl])
      fix e assume "e \<in> set (incoming edge_index i)"
      then have "e < length edge_index" by (simp add: incoming_def)
      then show "?ms ! e =
          edge_message c (x ! fst (edge_index ! e)) (edge_weight ! e) (edge_attr ! e)"
        by (rule msg)
    qed
    have "i < length (zeros_like ?x1)"
      using that by (simp add: zeros_like_def Linear_forward_def)
    then show ?thesis
      unfolding aggregated_def vec_sum_def
      using scatter_add_nth [of i "zeros_like ?x1" "zip ?idx ?ms"] zip_filter_fst [OF lms, of i]
      by (simp only: z f m)
  qed
  have "Linear_forward (conv_lin2 c) (scatter_add (zeros_like ?x1) (zip ?idx ?ms)) =
        CFConv_spec c b2 x edge_index edge_weight edge_attr"
  proof (rule nth_equalityI)
    show "length (Linear_forward (conv_lin2 c) (scatter_add (zeros_like ?x1) (zip ?idx ?ms))) =
          length (CFConv_spec c b2 x edge_index edge_weight edge_attr)"
      by (simp add: CFConv_spec_def length_Linear_forward length_scatter_add length_zeros_like)
  next
    fix i
    assume "i < length (Linear_forward (conv_lin2 c)
                  (scatter_add (zeros_like ?x1) (zip ?idx ?ms)))"
    then have i: "i < length x"
      by (simp add: length_Linear_forward length_scatter_add length_zeros_like)
    have "Linear_forward (conv_lin2 c) (scatter_add (zeros_like ?x1) (zip ?idx ?ms)) ! i =
          F_linear (aggregated c x edge_index edge_weight edge_attr i)
            (weight (conv_lin2 c)) (bias (conv_lin2 c))"
      using row [OF i] i
      by (simp add: Linear_forward_nth length_scatter_add length_zeros_like
          length_Linear_forward)
    then show "Linear_forward (conv_lin2 c) (scatter_add (zeros_like ?x1) (zip ?idx ?ms)) ! i =
          CFConv_spec c b2 x edge_index edge_weight edge_attr ! i"
      using i by (simp add: CFConv_spec_def b2 F_linear_def project_with_bias_def)
  qed
  then have A: "CFConv_forward c x edge_index edge_weight edge_attr =
           Inr (CFConv_spec c b2 x edge_index edge_weight edge_attr)"
    by (simp add: CFConv_forward_def pg)
  have B: "list_all (\<lambda>i. incoming edge_index i = [] \<longrightarrow>
             aggregated c x edge_index edge_weight edge_attr i =
               replicate (length (weight (conv_lin1 c))) 0) [0..<length x]"
    by (simp add: list_all_iff aggregated_def vec_sum_def)
  show ?thesis using A B by simp
qed

theorem CFConv_forward_spec_witness:
  "CFConv_forward example_conv [[1, 0], [0, 1], [1, 1]] [(0, 1), (1, 0), (2, 1)] [1, 2, 3]
       [[0, 0], [1, 0], [0, 1]] =
     Inr (CFConv_spec example_conv [0, 0] [[1, 0], [0, 1], [1, 1]] [(0, 1), (1, 0), (2, 1)]
            [1, 2, 3] [[0, 0], [1, 0], [0, 1]])"
  using CFConv_forward_spec [of "[[1, 0], [0, 1], [1, 1]]" "[(0, 1), (1, 0), (2, 1)]"
      "[1, 2, 3]" "[[0, 0], [1, 0], [0, 1]]" example_conv "[0, 0]"]
  by (simp add: example_conv_def)



section \<open>The derivative with respect to the filtered positions\<close>

lemma occurs_interactions:
  assumes "\<not> occurs masked_pos ei" "\<not> occurs masked_pos ew" "\<not> occurs masked_pos ea"
  shows "occurs masked_pos
           (fold (\<lambda>_ h. Node ''add'' [h, Node ''interaction'' [h, ei, ew, ea]]) bs h) =
         occurs masked_pos h"
  using assms by (induction bs arbitrary: h) (simp_all add: masked_pos_def)

lemmas occurs_interactions_unfolded = occurs_interactions [unfolded masked_pos_def]

lemma fold_not_leaf:
  "h \<noteq> Leaf n \<Longrightarrow>
   fold (\<lambda>_ h. Node ''add'' [h, Node ''interaction'' [h, ei, ew, ea]]) bs h \<noteq> Leaf n"
  by (induction bs arbitrary: h) simp_all

lemma snd_forward_graph: "snd (forward_graph m bg) = masked_pos"
  by (simp add: forward_graph_def graph_of_def masked_pos_def Let_def)

lemma unused_pos:
  assumes "\<not> dipole m"
  shows "\<not> occurs masked_pos (fst (forward_graph m bg))"
  using assms
  by (simp add: forward_graph_def graph_of_def Let_def occurs_interactions_unfolded
      masked_pos_def fold_not_leaf fold_not_leaf [symmetric])

lemma used_pos:
  assumes "dipole m"
  shows "occurs masked_pos (fst (forward_graph m bg))"
  using assms
  by (simp add: forward_graph_def graph_of_def Let_def masked_pos_def)

lemma forward_derivative_raises:
  assumes "derivative m" "\<not> dipole m" "forward_locals env m z pos b = Inr r"
  shows "forward env m z pos b = Inl (RuntimeError
        ''One of the differentiated Tensors appears to not have been used in the graph. Set allow_unused=True if this is the desired behavior.'')"
proof -
  obtain o_v p_v where g: "forward_graph m (b \<noteq> None) = (o_v, p_v)"
    by (cases "forward_graph m (b \<noteq> None)")
  have "\<not> occurs p_v o_v"
    using unused_pos [OF assms(2), of "b \<noteq> None"] snd_forward_graph [of m "b \<noteq> None"] g
    by simp
  then show ?thesis using assms g
    by (cases r) (simp add: forward_def autograd_grad_def)
qed

lemma forward_derivative_dipole:
  assumes "derivative m" "dipole m" "forward_locals env m z pos b = Inr (out, pos')"
  shows "forward env m z pos b = Inr (Out_dy out (Neg_grad_wrt pos'))"
proof -
  obtain o_v p_v where g: "forward_graph m (b \<noteq> None) = (o_v, p_v)"
    by (cases "forward_graph m (b \<noteq> None)")
  have "occurs p_v o_v"
    using used_pos [OF assms(2), of "b \<noteq> None"] snd_forward_graph [of m "b \<noteq> None"] g
    by simp
  then show ?thesis using assms g
    by (simp add: forward_def autograd_grad_def)
qed

lemmas example_defs = example_model_def example_env_def example_block_def example_conv_def
  radius_graph_reference_def sq_dist_def

lemmas forward_defs = forward_locals_def atom_features_def filter_atoms_def per_atom_def
  output_network_def dipole_vectors_def reference_correction_def
  mask_index_def index_select_def scatter_def scatter_sum_def scatter_mean_def
  InteractionBlock_forward_def CFConv_forward_def propagate_def Linear_forward_def
  F_linear_def zeros_like_def Sequential_forward_def message_def broadcast_def batch_of_def
  atom_mask_def int64_scalar_def wrap64_def Let_def

lemma example_forward_locals:
  "forward_locals example_env (example_model\<lparr>derivative := d\<rparr>) [1, 1]
     [[0, 0, 0], [0, 0, 1]] (Some [0, 2]) =
   Inr ([[1 / 2], [0], [1 / 2]], [[0, 0, 0], [0, 0, 1]])"
  by (simp add: forward_defs example_defs upt_rec_numeral numeral_3_eq_3)

text \<open>
  Claim C2 says that every forward call of a model with \<open>derivative=True\<close> returns
  the pair of the scalar output and the negated gradient. In the source the name
  \<open>pos\<close> is rebound to \<open>pos[atom_mask]\<close> at line 159, a new tensor from which \<open>out\<close>
  is computed only in the dipole branch. Without dipole mode, the call of
  \<open>torch.autograd.grad\<close> at line 185 raises: here for two hydrogen atoms in two
  molecules, on which the same model without \<open>derivative\<close> returns its output.
\<close>

theorem forward_derivative_unused_positions:
  "forward example_env (example_model\<lparr>derivative := True\<rparr>) [1, 1]
     [[0, 0, 0], [0, 0, 1]] (Some [0, 2]) =
   Inl (RuntimeError
        ''One of the differentiated Tensors appears to not have been used in the graph. Set allow_unused=True if this is the desired behavior.'')"
  by (rule forward_derivative_raises [OF _ _ example_forward_locals])
    (simp_all add: example_model_def)

lemma forward_without_derivative:
  "forward example_env example_model [1, 1] [[0, 0, 0], [0, 0, 1]] (Some [0, 2]) =
   Inr (Out [[1 / 2], [0], [1 / 2]])"
  using example_forward_locals [of False]
  by (simp add: forward_def example_model_def)

section \<open>The checks of the constructor\<close>

lemma rand_normal_shape:
  "length (fst (rand_normal rows cols g)) = rows"
  "0 < rows \<Longrightarrow> (case fst (rand_normal rows cols g) of [] \<Rightarrow> 0 | r # _ \<Rightarrow> length r) = cols"
  by (simp_all add: rand_normal_def upt_conv_Cons)

lemma width_map_upt:
  "0 < n \<Longrightarrow> (case map f [0..<n] of [] \<Rightarrow> 0 | r # _ \<Rightarrow> length r) = length (f 0)"
  by (simp add: upt_conv_Cons)

lemma copy_into_fresh_table:
  assumes "broadcasts_to (shape t) 100 1"
  shows "copy_into (fst (rand_normal 100 (Suc 0) g)) t =
         Inr (map (\<lambda>i. [entries t ! broadcast_index (shape t) i 0]) [0..<100])"
  using assms by (simp add: copy_into_def Let_def rand_normal_shape)

lemma copy_into_fresh_table_fails:
  assumes "\<not> broadcasts_to (shape t) 100 1"
  shows "copy_into (fst (rand_normal 100 (Suc 0) g)) t = Inl BroadcastError"
  using assms by (simp add: copy_into_def Let_def rand_normal_shape)

lemma copy_into_table_again:
  assumes "broadcasts_to (shape t) 100 1"
  shows "copy_into (map (\<lambda>i. [f i]) [0..<100]) t =
         Inr (map (\<lambda>i. [entries t ! broadcast_index (shape t) i 0]) [0..<100])"
  using assms by (simp add: copy_into_def Let_def width_map_upt)

lemma TorchMD_GN_reset_parameters_cases:
  "TorchMD_GN_reset_parameters M g =
     (case atomref_embedding M of
        None \<Rightarrow> Inr (projr (TorchMD_GN_reset_parameters M g))
      | Some w \<Rightarrow>
         (case initial_atomref M of
            None \<Rightarrow> Inl TypeError
          | Some a \<Rightarrow>
             if broadcasts_to (shape a) (length w) (case w of [] \<Rightarrow> 0 | r # _ \<Rightarrow> length r)
             then Inr (projr (TorchMD_GN_reset_parameters M g))
             else Inl BroadcastError))"
  by (simp add: TorchMD_GN_reset_parameters_def Let_def split_def copy_into_def
      split: option.splits)



lemma TorchMD_GN_init_cases:
  "TorchMD_GN_init env kw g =
     (if readout kw \<notin> set [''add'', ''sum'', ''mean''] then Inl (AssertionError None)
      else if rbf_type kw \<notin> fst ` set (rbf_class_mapping env)
        then Inl (AssertionError (Some (unknown_rbf_message (rbf_type kw)
               (map fst (rbf_class_mapping env)))))
      else if activation kw \<notin> fst ` set (act_class_mapping env)
        then Inl (AssertionError (Some (unknown_activation_message (activation kw)
               (map fst (act_class_mapping env)))))
      else if (case atomref kw of None \<Rightarrow> False | Some a \<Rightarrow> \<not> broadcasts_to (shape a) 100 1)
        then Inl BroadcastError
      else Inr (projr (TorchMD_GN_init env kw g)))"
proof (cases "readout kw \<notin> set [''add'', ''sum'', ''mean'']")
  case True
  then show ?thesis by (simp add: TorchMD_GN_init_def)
next
  case ok: False
  show ?thesis
  proof (cases "map_of (rbf_class_mapping env) (rbf_type kw)")
    case None
    then have "rbf_type kw \<notin> fst ` set (rbf_class_mapping env)"
      by (simp add: map_of_eq_None_iff)
    then show ?thesis using ok None by (simp add: TorchMD_GN_init_def)
  next
    case rbf: (Some r)
    then have r: "rbf_type kw \<in> fst ` set (rbf_class_mapping env)"
      using map_of_eq_None_iff [of "rbf_class_mapping env" "rbf_type kw"] by simp
    show ?thesis
    proof (cases "map_of (act_class_mapping env) (activation kw)")
      case None
      then have "activation kw \<notin> fst ` set (act_class_mapping env)"
        by (simp add: map_of_eq_None_iff)
      then show ?thesis using ok rbf r None by (simp add: TorchMD_GN_init_def)
    next
      case (Some a)
      then have a: "activation kw \<in> fst ` set (act_class_mapping env)"
        using map_of_eq_None_iff [of "act_class_mapping env" "activation kw"] by simp
      show ?thesis
      proof (cases "atomref kw")
        case None
        have "TorchMD_GN_init env kw g = Inr (projr (TorchMD_GN_init env kw g))"
          using ok rbf Some None
          by (simp add: TorchMD_GN_init_def Let_def split_def
              TorchMD_GN_reset_parameters_def)
        then show ?thesis using ok r a None by simp
      next
        case ar: (Some t)
        show ?thesis
        proof (cases "broadcasts_to (shape t) 100 1")
          case False
          have "TorchMD_GN_init env kw g = Inl BroadcastError"
            using ok rbf Some ar
            by (simp add: TorchMD_GN_init_def Let_def split_def
                copy_into_fresh_table_fails [OF False])
          then show ?thesis using ok r a ar False by simp
        next
          case True
          have "TorchMD_GN_init env kw g = Inr (projr (TorchMD_GN_init env kw g))"
            using ok rbf Some ar
            by (simp add: TorchMD_GN_init_def Let_def split_def
                copy_into_fresh_table [OF True] TorchMD_GN_reset_parameters_def
                copy_into_table_again [OF True])
          then show ?thesis using ok r a ar True by simp
        qed
      qed
    qed
  qed
qed



lemma join_contains: "k \<in> set keys \<Longrightarrow> \<exists>a b. join sep keys = a @ k @ b"
proof (induction sep keys rule: join.induct)
  case (1 sep)
  then show ?case by simp
next
  case (2 sep x)
  then have "join sep [x] = [] @ k @ []" by simp
  then show ?case by blast
next
  case (3 sep x y ys)
  show ?case
  proof (cases "k = x")
    case True
    then have "join sep (x # y # ys) = [] @ k @ (sep @ join sep (y # ys))" by simp
    then show ?thesis by blast
  next
    case False
    then obtain a b where "join sep (y # ys) = a @ k @ b" using 3 by auto
    then have "join sep (x # y # ys) = (x @ sep @ a) @ k @ b" by simp
    then show ?thesis by blast
  qed
qed

text \<open>
  Claim C7, as amended. For layers of positive size, the constructor fails at once,
  with an assertion error that carries no message, when \<open>readout\<close> is none of add, sum
  and mean; otherwise with an assertion error whose message names every key of the
  registry when \<open>rbf_type\<close> is not a key of \<open>rbf_class_mapping\<close>; otherwise in the same way
  when \<open>activation\<close> is not a key of \<open>act_class_mapping\<close>; and it makes no other check of
  its own: it returns the module, unless \<open>atomref\<close> has a shape that the copy into the
  reference embedding of 100 rows and 1 column does not take, which makes that copy
  raise.
\<close>

theorem constructor_validation:
  assumes "0 < hidden_channels kw" and "0 < num_filters kw"
  shows "TorchMD_GN_init env kw g =
     (if readout kw \<notin> set [''add'', ''sum'', ''mean''] then Inl (AssertionError None)
      else if rbf_type kw \<notin> fst ` set (rbf_class_mapping env)
        then Inl (AssertionError (Some (unknown_rbf_message (rbf_type kw)
               (map fst (rbf_class_mapping env)))))
      else if activation kw \<notin> fst ` set (act_class_mapping env)
        then Inl (AssertionError (Some (unknown_activation_message (activation kw)
               (map fst (act_class_mapping env)))))
      else if (case atomref kw of None \<Rightarrow> False | Some a \<Rightarrow> \<not> broadcasts_to (shape a) 100 1)
        then Inl BroadcastError
      else Inr (projr (TorchMD_GN_init env kw g))) \<and>
   (\<forall>k \<in> fst ` set (rbf_class_mapping env).
      \<exists>a b. unknown_rbf_message (rbf_type kw) (map fst (rbf_class_mapping env)) = a @ k @ b) \<and>
   (\<forall>k \<in> fst ` set (act_class_mapping env).
      \<exists>a b. unknown_activation_message (activation kw) (map fst (act_class_mapping env)) =
        a @ k @ b)"
proof -
  define name where "name = rbf_type kw"
  define keys where "keys = map fst (rbf_class_mapping env)"
  define name' where "name' = activation kw"
  define keys' where "keys' = map fst (act_class_mapping env)"
  have "\<exists>a b. unknown_rbf_message name keys = a @ k @ b" if k: "k \<in> set keys" for k
  proof -
    obtain a b where "join '', '' keys = a @ k @ b" using join_contains [OF k] by blast
    then have "unknown_rbf_message name keys =
        (''Unknown RBF type '' @ [CHR 0x22] @ name @ [CHR 0x22] @ ''. Choose from '' @ a)
          @ k @ (b @ ''.'')"
      by (simp add: unknown_rbf_message_def)
    then show ?thesis by blast
  qed
  moreover have "\<exists>a b. unknown_activation_message name' keys' = a @ k @ b"
    if k: "k \<in> set keys'" for k
  proof -
    obtain a b where "join '', '' keys' = a @ k @ b" using join_contains [OF k] by blast
    then have "unknown_activation_message name' keys' =
        (''Unknown activation function '' @ [CHR 0x22] @ name' @ [CHR 0x22]
           @ ''. Choose from '' @ a) @ k @ (b @ ''.'')"
      by (simp add: unknown_activation_message_def)
    then show ?thesis by blast
  qed
  ultimately show ?thesis
    using TorchMD_GN_init_cases [of env kw g]
    unfolding name_def keys_def name'_def keys'_def by (simp del: set_simps)
qed

theorem constructor_validation_witness:
  "TorchMD_GN_init example_env (example_kwargs\<lparr>rbf_type := ''foo''\<rparr>) example_generator =
     Inl (AssertionError (Some (''Unknown RBF type '' @ [CHR 0x22] @ ''foo'' @ [CHR 0x22]
            @ ''. Choose from gauss, expnorm.'')))"
  using constructor_validation [where kw = "example_kwargs\<lparr>rbf_type := ''foo''\<rparr>"
      and env = example_env and g = example_generator]
  by (simp add: example_env_def example_kwargs_def unknown_rbf_message_def)


text \<open>
  Claim C7 as stated fails: the assert on \<open>readout\<close> has no message, so the error of an
  invalid readout names no valid alternative; and a cutoff window whose upper end is
  below its lower end is accepted.
\<close>

theorem constructor_validation_gaps:
  "TorchMD_GN_init example_env (example_kwargs\<lparr>readout := ''max''\<rparr>) example_generator =
     Inl (AssertionError None) \<and>
   TorchMD_GN_init example_env (example_kwargs\<lparr>cutoff_lower := 5, cutoff_upper := 1\<rparr>)
       example_generator =
     Inr (projr (TorchMD_GN_init example_env
            (example_kwargs\<lparr>cutoff_lower := 5, cutoff_upper := 1\<rparr>) example_generator))"
proof -
  have "TorchMD_GN_init example_env (example_kwargs\<lparr>readout := ''max''\<rparr>) example_generator =
        Inl (AssertionError None)"
    by (simp add: TorchMD_GN_init_def example_kwargs_def)
  moreover have "TorchMD_GN_init example_env
        (example_kwargs\<lparr>cutoff_lower := 5, cutoff_upper := 1\<rparr>) example_generator =
      Inr (projr (TorchMD_GN_init example_env
            (example_kwargs\<lparr>cutoff_lower := 5, cutoff_upper := 1\<rparr>) example_generator))"
    using TorchMD_GN_init_cases [of example_env
        "example_kwargs\<lparr>cutoff_lower := 5, cutoff_upper := 1\<rparr>" example_generator]
    by (simp add: example_env_def example_kwargs_def)
  ultimately show ?thesis by simp
qed

text \<open>A reference tensor of shape (100,), one entry per atomic number, does not
  broadcast to the table of shape (100, 1): the constructor raises in the copy.\<close>

lemma atomref_vector_raises:
  "TorchMD_GN_init example_env
     (example_kwargs\<lparr>atomref := Some \<lparr>shape = [100], entries = replicate 100 0\<rparr>\<rparr>)
     example_generator = Inl BroadcastError"
  using TorchMD_GN_init_cases [of example_env
      "example_kwargs\<lparr>atomref := Some \<lparr>shape = [100], entries = replicate 100 0\<rparr>\<rparr>"
      example_generator]
  by (simp add: example_env_def example_kwargs_def)

section \<open>Dipole mode\<close>




















section \<open>Re-initialisation of an interaction block\<close>

lemma mlp_mlp_update: "mlp (mlp_update f b) = f (mlp b)"
  by (simp add: mlp_def mlp_update_def)

lemma net_CFConv_reset_parameters: "net (fst (CFConv_reset_parameters c g)) = net c"
  by (simp add: CFConv_reset_parameters_def Let_def split_def)

lemma InteractionBlock_reset_parameters_mlp_2_bias:
  "bias (mlp_2 (mlp (fst (InteractionBlock_reset_parameters b g)))) = bias (mlp_2 (mlp b))"
  by (simp add: InteractionBlock_reset_parameters_def Let_def split_def mlp_def mlp_update_def
      net_CFConv_reset_parameters)

lemma InteractionBlock_reset_parameters_zero_biases:
  "bias (mlp_0 (mlp (fst (InteractionBlock_reset_parameters b g)))) = fill_0 (bias (mlp_0 (mlp b)))"
  "bias (conv_lin2 (conv (fst (InteractionBlock_reset_parameters b g)))) =
     fill_0 (bias (conv_lin2 (conv b)))"
  "bias (lin (fst (InteractionBlock_reset_parameters b g))) = fill_0 (bias (lin b))"
  by (simp_all add: InteractionBlock_reset_parameters_def Let_def split_def mlp_def
      mlp_update_def net_CFConv_reset_parameters CFConv_reset_parameters_bias fill_0_def
      option.map_comp comp_def)


lemma InteractionBlock_init_mlp_2_bias:
  "bias (mlp_2 (mlp (fst (InteractionBlock_init env hidden n_rbf n_filters a lo up g)))) =
   bias (fst (Linear_init n_filters n_filters True
                (snd (Linear_init n_rbf n_filters True g))))"
  by (simp add: InteractionBlock_init_def Let_def split_def
      InteractionBlock_reset_parameters_mlp_2_bias)
    (simp add: mlp_def CFConv_init_def Let_def split_def net_CFConv_reset_parameters)

lemma TorchMD_GN_reset_parameters_head_biases:
  assumes "TorchMD_GN_reset_parameters M g = Inr (M', g')"
  shows "bias (lin1 M') = fill_0 (bias (lin1 M))"
    and "bias (lin2 M') = fill_0 (bias (lin2 M))"
  using assms
  by (auto simp: TorchMD_GN_reset_parameters_def Let_def split_def
      split: option.splits sum.splits)

text \<open>
  Claim C9 says that after construction and after \<open>reset_parameters\<close> the biases of
  both linear layers of the filter network are zero. The fourth statement of
  \<open>InteractionBlock.reset_parameters\<close> fills the bias of \<open>mlp[0]\<close> a second time, and
  no statement fills the bias of \<open>mlp[2]\<close>: after construction it holds the draws of
  the constructor of \<open>nn.Linear\<close>, and a later \<open>reset_parameters\<close> leaves it as it is.
\<close>

theorem second_filter_bias_not_zeroed:
  "bias (mlp_2 (mlp (fst (InteractionBlock_init example_env 2 2 2 tanh 0 5 example_generator)))) =
     Some [- (1 / (2 * sqrt 2)), - (1 / (2 * sqrt 2))] \<and>
   bias (mlp_2 (mlp (fst (InteractionBlock_reset_parameters example_block example_generator)))) =
     Some [1, 0]"
  apply (simp add: InteractionBlock_init_mlp_2_bias InteractionBlock_reset_parameters_mlp_2_bias)
  apply (simp add: Linear_init_def rand_uniform_def Let_def example_generator_def
      example_block_def example_conv_def mlp_def upt_rec_numeral)
  apply (simp add: numeral_2_eq_2 del: One_nat_def)
  done

section \<open>Rescaling\<close>

text \<open>
  Claim C10. Without dipole mode, the per-atom value is rescaled (\<open>h * std + mean\<close>)
  exactly when both \<open>mean\<close> and \<open>std\<close> are configured; when one of them is missing,
  \<open>forward\<close> behaves as if neither were configured: the other is ignored and nothing
  fails because of it.
\<close>

theorem rescaling_needs_mean_and_std:
  assumes "\<not> dipole m"
  shows "per_atom m h z pos batch =
           reference_correction m
             (case (mean m, std m) of
                (Some mu, Some s) \<Rightarrow> map (map (\<lambda>v. v * s + mu)) (output_network m h)
              | _ \<Rightarrow> output_network m h) z \<and>
         (mean m = None \<or> std m = None \<longrightarrow>
            forward env m z pos batch_arg =
              forward env (m\<lparr>mean := None, std := None\<rparr>) z pos batch_arg)"
proof -
  have a: "per_atom m h z pos batch =
           reference_correction m
             (case (mean m, std m) of
                (Some mu, Some s) \<Rightarrow> map (map (\<lambda>v. v * s + mu)) (output_network m h)
              | _ \<Rightarrow> output_network m h) z"
    using assms by (simp add: per_atom_def Let_def split: option.splits)
  have b: "forward env m z pos batch_arg =
           forward env (m\<lparr>mean := None, std := None\<rparr>) z pos batch_arg"
    if c: "mean m = None \<or> std m = None"
  proof -
    let ?m = "m\<lparr>mean := None, std := None\<rparr>"
    have c': "\<not> ((\<exists>y. mean m = Some y) \<and> (\<exists>y. std m = Some y))"
      using c by auto
    have 1: "atom_features env ?m = atom_features env m"
      by (intro ext) (simp add: atom_features_def Let_def cong: sum.case_cong)
    have 2: "filter_atoms ?m = filter_atoms m"
      by (intro ext) (simp add: filter_atoms_def atom_mask_def cong: sum.case_cong)
    have o: "output_network ?m = output_network m"
      by (intro ext) (simp add: output_network_def)
    have r: "reference_correction ?m = reference_correction m"
      by (intro ext) (simp add: reference_correction_def)
    have 3: "per_atom ?m = per_atom m"
      using assms
      by (intro ext) (simp add: per_atom_def o r c' Let_def)
    have 4: "forward_locals env ?m = forward_locals env m"
      by (intro ext)
        (simp add: forward_locals_def 1 2 3 Let_def cong: sum.case_cong prod.case_cong)
    have 5: "forward_graph ?m = forward_graph m"
      by (intro ext) (simp add: forward_graph_def c')
    show ?thesis
      by (simp add: forward_def 4 5 cong: sum.case_cong prod.case_cong if_cong)
  qed
  show ?thesis using a b by blast
qed

theorem rescaling_needs_mean_and_std_witness:
  "forward example_env (example_model\<lparr>std := Some 2\<rparr>) [1, 1] [[0, 0, 0], [0, 0, 1]]
     (Some [0, 2]) = Inr (Out [[1 / 2], [0], [1 / 2]])"
proof -
  have "example_model\<lparr>std := Some 2, mean := None, std := None\<rparr> = example_model"
    by (simp add: example_model_def)
  moreover have "\<not> dipole (example_model\<lparr>std := Some 2\<rparr>)"
    and "mean (example_model\<lparr>std := Some 2\<rparr>) = None"
    by (simp_all add: example_model_def)
  ultimately show ?thesis
    using rescaling_needs_mean_and_std [where m = "example_model\<lparr>std := Some 2\<rparr>"
        and env = example_env and z = "[1, 1]" and pos = "[[0, 0, 0], [0, 0, 1]]"
        and batch_arg = "Some [0, 2]"]
      forward_without_derivative
    by simp
qed


section \<open>The atom filter\<close>

lemma remaining_eq: "remaining m z = {i. i < length z \<and> wrap64 (atom_filter m) < int (z ! i)}"
  by (auto simp: remaining_def)

lemma wrap64_signed: "- (2 ^ 63) \<le> k \<Longrightarrow> k < 2 ^ 63 \<Longrightarrow> wrap64 k = k"
  by (simp add: wrap64_def)

lemma mask_index_nths:
  assumes "length xs = length z"
  shows "mask_index xs (map P z) = Inr (nths xs {i. i < length z \<and> P (z ! i)})"
proof -
  have 1: "zip xs (map P z) = map (\<lambda>i. (xs ! i, P (z ! i))) [0..<length z]"
    using assms by (intro nth_equalityI) auto
  have 2: "zip xs [0..<length xs] = map (\<lambda>i. (xs ! i, i)) [0..<length z]"
    using assms by (intro nth_equalityI) auto
  have "map fst (filter snd (zip xs (map P z))) =
        map ((!) xs) (filter (\<lambda>i. P (z ! i)) [0..<length z])"
    by (simp add: 1 filter_map comp_def)
  also have "\<dots> = map ((!) xs) (filter (\<lambda>i. i < length z \<and> P (z ! i)) [0..<length z])"
    by (rule arg_cong [where f = "map ((!) xs)"], rule filter_cong) auto
  also have "\<dots> = nths xs {i. i < length z \<and> P (z ! i)}"
    by (simp add: nths_def 2 filter_map comp_def)
  finally show ?thesis using assms by (simp add: mask_index_def)
qed

lemma filter_atoms_nths:
  assumes "length h = length z" "length pos = length z" "length batch = length z"
    and "- (2 ^ 63) \<le> atom_filter m" "atom_filter m < 2 ^ 64"
  shows "filter_atoms m h z pos batch =
         Inr (nths h (remaining m z), nths z (remaining m z),
              nths pos (remaining m z), nths batch (remaining m z))"
  using assms
  by (simp add: filter_atoms_def atom_mask_def int64_scalar_def remaining_eq
      mask_index_nths [where P = "\<lambda>a. wrap64 (atom_filter m) < int a"])

lemma remaining_atoms_above_filter:
  "list_all (\<lambda>a. wrap64 (atom_filter m) < int a) (nths z (remaining m z))"
  by (auto simp: list_all_iff set_nths remaining_eq)


text \<open>
  Claim C6, as amended: for a threshold \<open>atom_filter\<close> in the range of the 64-bit signed
  integers. When the features have one row per atom, as the positions and the molecule
  ids have, the four tensors are cut down to the same atoms, those with atomic number
  above \<open>atom_filter\<close>, in their order; every remaining atomic number is above
  \<open>atom_filter\<close>; the output network, the dipole branch with its centers of mass, the
  reference correction and the readout are computed from these four tensors alone; and
  when forces are returned, they are the gradient for the remaining positions.
\<close>

theorem atom_filter_drops_atoms:
  assumes "atom_features env m z pos (batch_of z batch_arg) = Inr h"
    and "length h = length z" and "length pos = length z"
    and "length (batch_of z batch_arg) = length z"
    and "- (2 ^ 63) \<le> atom_filter m" and "atom_filter m < 2 ^ 63"
  shows "remaining m z = {i. i < length z \<and> atom_filter m < int (z ! i)} \<and>
         filter_atoms m h z pos (batch_of z batch_arg) =
           Inr (nths h (remaining m z), nths z (remaining m z),
                nths pos (remaining m z), molecule_ids m z batch_arg) \<and>
         list_all (\<lambda>a. atom_filter m < int a) (nths z (remaining m z)) \<and>
         forward_locals env m z pos batch_arg =
           (case per_atom m (nths h (remaining m z)) (nths z (remaining m z))
                   (nths pos (remaining m z)) (molecule_ids m z batch_arg) of
              Inl e \<Rightarrow> Inl e
            | Inr v \<Rightarrow>
               (case scatter v (molecule_ids m z batch_arg) (readout m) of
                  Inl e \<Rightarrow> Inl e
                | Inr out \<Rightarrow>
                    Inr (if dipole m then map (\<lambda>r. [norm_row r]) out else out,
                         nths pos (remaining m z)))) \<and>
         (\<forall>out f. forward env m z pos batch_arg = Inr (Out_dy out f) \<longrightarrow>
                  f = Neg_grad_wrt (nths pos (remaining m z)))"
proof -
  have w: "wrap64 (atom_filter m) = atom_filter m"
    using wrap64_signed [OF assms(5,6)] .
  have up: "atom_filter m < 2 ^ 64" using assms(6) by simp
  note f = filter_atoms_nths [OF assms(2,3,4,5) up, folded molecule_ids_def]
  have l: "forward_locals env m z pos batch_arg =
           (case per_atom m (nths h (remaining m z)) (nths z (remaining m z))
                   (nths pos (remaining m z)) (molecule_ids m z batch_arg) of
              Inl e \<Rightarrow> Inl e
            | Inr v \<Rightarrow>
               (case scatter v (molecule_ids m z batch_arg) (readout m) of
                  Inl e \<Rightarrow> Inl e
                | Inr out \<Rightarrow>
                    Inr (if dipole m then map (\<lambda>r. [norm_row r]) out else out,
                         nths pos (remaining m z))))"
    by (simp add: forward_locals_def assms(1) f)
  have d: "f' = Neg_grad_wrt (nths pos (remaining m z))"
    if "forward env m z pos batch_arg = Inr (Out_dy out f')" for out f'
    using that unfolding forward_def l
    by (auto split: sum.splits prod.splits if_splits)
  show ?thesis
    using remaining_eq [of m z] f remaining_atoms_above_filter [of m z] l d
    unfolding w by blast
qed

lemma example_atom_features:
  "atom_features example_env example_model [0, 1] [[0, 0, 0], [0, 0, 1]]
     (batch_of [0, 1] (Some [0, 2])) = Inr [[1, 2], [1, 2]]"
  by (simp add: forward_defs example_defs upt_rec_numeral)

theorem atom_filter_drops_atoms_witness:
  "forward_locals example_env example_model [0, 1] [[0, 0, 0], [0, 0, 1]] (Some [0, 2]) =
     Inr ([[0], [0], [1 / 2]], [[0, 0, 1]])"
proof -
  have r: "remaining example_model [0, 1] = {1}"
    by (auto simp: remaining_eq wrap64_def example_model_def less_Suc_eq)
  have i: "batch_of [0, 1] (Some [0, 2]) = [0, 2]"
    by (simp add: batch_of_def)
  have l1: "length [[1, 2], [1, 2 :: real]] = length [0, 1 :: nat]"
    and l2: "length [[0, 0, 0], [0, 0, 1 :: real]] = length [0, 1 :: nat]"
    and l3: "length (batch_of [0, 1] (Some [0, 2])) = length [0, 1 :: nat]"
    by (simp_all add: batch_of_def)
  have k: "- (2 ^ 63) \<le> atom_filter example_model" "atom_filter example_model < 2 ^ 63"
    by (simp_all add: example_model_def)
  have n: "nths [a, b] {1 :: nat} = [b]" for a b :: 'a
    by (simp add: nths_Cons)
  have "forward_locals example_env example_model [0, 1] [[0, 0, 0], [0, 0, 1]] (Some [0, 2]) =
           (case per_atom example_model (nths [[1, 2], [1, 2]] (remaining example_model [0, 1]))
                   (nths [0, 1] (remaining example_model [0, 1]))
                   (nths [[0, 0, 0], [0, 0, 1]] (remaining example_model [0, 1]))
                   (molecule_ids example_model [0, 1] (Some [0, 2])) of
              Inl e \<Rightarrow> Inl e
            | Inr v \<Rightarrow>
               (case scatter v (molecule_ids example_model [0, 1] (Some [0, 2]))
                       (readout example_model) of
                  Inl e \<Rightarrow> Inl e
                | Inr out \<Rightarrow>
                    Inr (if dipole example_model then map (\<lambda>r. [norm_row r]) out else out,
                         nths [[0, 0, 0], [0, 0, 1]] (remaining example_model [0, 1]))))"
    using atom_filter_drops_atoms [OF example_atom_features l1 l2 l3 k] by blast
  then show ?thesis
    unfolding molecule_ids_def i r n
    by (simp add: example_model_def per_atom_def output_network_def reference_correction_def
        Linear_forward_def F_linear_def scatter_def scatter_sum_def numeral_3_eq_3)
qed

text \<open>
  Claim C6 as stated fails for a threshold beyond the 64-bit signed integers: with
  \<open>atom_filter = 2^63\<close> the comparison of line 156 is made with \<open>- 2^63\<close>, and the two
  hydrogen atoms, whose atomic number 1 is not above the threshold, are both kept, with
  their positions.
\<close>

theorem atom_filter_beyond_int64:
  "forward_locals example_env (example_model\<lparr>atom_filter := 2 ^ 63\<rparr>) [1, 1]
     [[0, 0, 0], [0, 0, 1]] (Some [0, 2]) =
   Inr ([[1 / 2], [0], [1 / 2]], [[0, 0, 0], [0, 0, 1]]) \<and>
   list_all (\<lambda>a. int a \<le> atom_filter (example_model\<lparr>atom_filter := 2 ^ 63\<rparr>)) [1, 1]"
  by (simp add: forward_defs example_defs upt_rec_numeral numeral_3_eq_3)

section \<open>The length of the output\<close>

lemma length_scatter_sum:
  "length (scatter_sum src idx) = (if idx = [] then 0 else Max (set idx) + 1)"
  by (cases idx) (simp_all add: scatter_sum_def length_scatter_add)

lemma length_scatter_mean:
  "length (scatter_mean src idx) = (if idx = [] then 0 else Max (set idx) + 1)"
  by (simp add: scatter_mean_def length_scatter_sum)

lemma length_scatter:
  assumes "scatter src idx r = Inr out"
  shows "length out = (if idx = [] then 0 else Max (set idx) + 1)"
proof -
  have "out = scatter_sum src idx \<or> out = scatter_mean src idx"
    using assms by (auto simp: scatter_def split: if_splits)
  then show ?thesis using length_scatter_sum length_scatter_mean by metis
qed

lemma mask_index_length: "mask_index xs msk = Inr ys \<Longrightarrow> length xs = length msk"
  by (simp add: mask_index_def split: if_splits)

lemma filter_atoms_batch:
  assumes "filter_atoms m h z pos batch = Inr (h', z', pos', batch')"
  shows "batch' = nths batch (remaining m z)"
proof -
  have m: "mask_index batch (map (\<lambda>a. wrap64 (atom_filter m) < int a) z) = Inr batch'"
    using assms
    by (auto simp: filter_atoms_def atom_mask_def int64_scalar_def split: sum.splits if_splits)
  then have "length batch = length z" using mask_index_length [OF m] by simp
  then show ?thesis
    using m mask_index_nths [of batch z "\<lambda>a. wrap64 (atom_filter m) < int a"]
    by (simp add: remaining_eq)
qed

lemma example_forward_out:
  "forward_out example_env example_model [1, 1] [[0, 0, 0], [0, 0, 1]] (Some [0, 2]) =
     Inr [[1 / 2], [0], [1 / 2]]"
proof -
  have "example_model\<lparr>derivative := False\<rparr> = example_model"
    by (simp add: example_model_def)
  then show ?thesis
    using example_forward_locals [of False] by (simp add: forward_out_def)
qed

text \<open>
  Claim C8, as amended. The returned scalar tensor has one row more than the largest
  molecule id among the atoms that the filter keeps, and no row when it keeps none. This
  is the number of distinct molecule ids when these ids are \<open>0, ..., M - 1\<close>. When
  \<open>batch\<close> is omitted every atom is in molecule 0 and there is at most one row.
\<close>

theorem forward_out_length:
  assumes "forward_out env m z pos batch_arg = Inr out"
  shows "length out = (if molecule_ids m z batch_arg = [] then 0
                       else Max (set (molecule_ids m z batch_arg)) + 1) \<and>
         ((\<exists>n. set (molecule_ids m z batch_arg) = {0..<n}) \<longrightarrow>
            length out = card (set (molecule_ids m z batch_arg))) \<and>
         (batch_arg = None \<longrightarrow> length out \<le> 1)"
proof -
  let ?batch = "batch_of z batch_arg"
  let ?ids = "molecule_ids m z batch_arg"
  obtain p where l: "forward_locals env m z pos batch_arg = Inr (out, p)"
    using assms by (auto simp: forward_out_def split: sum.splits)
  obtain h where h: "atom_features env m z pos ?batch = Inr h"
    using l by (cases "atom_features env m z pos ?batch") (simp_all add: forward_locals_def)
  obtain h' z' pos' batch' where f: "filter_atoms m h z pos ?batch = Inr (h', z', pos', batch')"
    using l h
    by (cases "filter_atoms m h z pos ?batch") (auto simp: forward_locals_def)
  obtain v where v: "per_atom m h' z' pos' batch' = Inr v"
    using l h f
    by (cases "per_atom m h' z' pos' batch'") (simp_all add: forward_locals_def)
  obtain r where r: "scatter v batch' (readout m) = Inr r"
    using l h f v
    by (cases "scatter v batch' (readout m)") (simp_all add: forward_locals_def)
  have o: "length out = length r"
    using l h f v r by (auto simp: forward_locals_def split: if_splits)
  have b: "batch' = ?ids"
    using filter_atoms_batch [OF f] by (simp add: molecule_ids_def)
  have len: "length out = (if ?ids = [] then 0 else Max (set ?ids) + 1)"
    using length_scatter [OF r] o b by simp
  have dense: "length out = card (set ?ids)" if ex: "\<exists>n. set ?ids = {0..<n}"
  proof -
    obtain n where n: "set ?ids = {0..<n}" using ex by blast
    show ?thesis
    proof (cases "?ids = []")
      case True
      then show ?thesis using len by simp
    next
      case False
      then have "0 < n" using n by (cases n) auto
      then have "Max {0..<n} = n - 1"
        by (intro Max_eqI) auto
      then show ?thesis using len False n \<open>0 < n\<close> by simp
    qed
  qed
  have none: "length out \<le> 1" if "batch_arg = None"
  proof -
    have "set ?ids \<subseteq> {0}"
      using that by (auto simp: molecule_ids_def batch_of_def set_nths)
    then have "?ids \<noteq> [] \<Longrightarrow> Max (set ?ids) = 0"
      by (metis Max_singleton set_empty subset_singletonD)
    then show ?thesis using len by auto
  qed
  show ?thesis using len dense none by blast
qed

theorem forward_out_length_witness:
  "length [[1 / 2], [0], [1 / 2 :: real]] =
     (if molecule_ids example_model [1, 1] (Some [0, 2]) = [] then 0
      else Max (set (molecule_ids example_model [1, 1] (Some [0, 2]))) + 1)"
  using forward_out_length [OF example_forward_out] by blast


text \<open>
  Claim C8 as stated fails: two atoms with the molecule ids 0 and 2 give three rows,
  the middle one zero, for two distinct molecule ids.
\<close>

theorem output_longer_than_distinct_ids:
  "forward_out example_env example_model [1, 1] [[0, 0, 0], [0, 0, 1]] (Some [0, 2]) =
     Inr [[1 / 2], [0], [1 / 2]] \<and>
   length [[1 / 2], [0], [1 / 2 :: real]] \<noteq> card (set [0 :: nat, 2])"
  using example_forward_out by simp


section \<open>Invariance under rigid transforms\<close>

lemma list3: "length (p :: 'a list) = 3 \<Longrightarrow> \<exists>x y z. p = [x, y, z]"
  by (cases p; cases "tl p"; cases "tl (tl p)") auto

lemma rigid_sq_dist:
  assumes R: "rotation3 R" and t: "length t = 3" and p: "length p = 3" and q: "length q = 3"
  shows "sq_dist (rigid R t p) (rigid R t q) = sq_dist p q"
proof -
  obtain r0 r1 r2 where Rr: "R = [r0, r1, r2]"
    using R list3 [of R] by (auto simp: rotation3_def)
  have "length r0 = 3" "length r1 = 3" "length r2 = 3"
    using R by (simp_all add: rotation3_def Rr)
  then obtain a b c d e f g h i where
    r: "r0 = [a, b, c]" "r1 = [d, e, f]" "r2 = [g, h, i]"
    using list3 [of r0] list3 [of r1] list3 [of r2] by blast
  obtain t1 t2 t3 where tt: "t = [t1, t2, t3]" using list3 [OF t] by blast
  obtain x y z where pp: "p = [x, y, z]" using list3 [OF p] by blast
  obtain u v w where qq: "q = [u, v, w]" using list3 [OF q] by blast
  have o: "a * a + d * d + g * g = 1" "b * b + e * e + h * h = 1" "c * c + f * f + i * i = 1"
    "a * b + d * e + g * h = 0" "a * c + d * f + g * i = 0" "b * c + e * f + h * i = 0"
    using R by (simp_all add: rotation3_def Rr r Let_def)
  define X where "X = x - u"
  define Y where "Y = y - v"
  define Z where "Z = z - w"
  have "sq_dist (rigid R t p) (rigid R t q) =
        (a * X + b * Y + c * Z) * (a * X + b * Y + c * Z) +
        (d * X + e * Y + f * Z) * (d * X + e * Y + f * Z) +
        (g * X + h * Y + i * Z) * (g * X + h * Y + i * Z)"
    by (simp add: sq_dist_def rigid_def Rr r tt pp qq X_def Y_def Z_def algebra_simps)
  also have "\<dots> = (a * a + d * d + g * g) * (X * X) + (b * b + e * e + h * h) * (Y * Y) +
        (c * c + f * f + i * i) * (Z * Z) + 2 * (a * b + d * e + g * h) * (X * Y) +
        2 * (a * c + d * f + g * i) * (X * Z) + 2 * (b * c + e * f + h * i) * (Y * Z)"
    by (simp add: algebra_simps)
  also have "\<dots> = X * X + Y * Y + Z * Z"
    by (simp add: o)
  also have "\<dots> = sq_dist p q"
    by (simp add: sq_dist_def pp qq X_def Y_def Z_def)
  finally show ?thesis .
qed

lemma norm_row_sq_dist: "norm_row (map2 (-) p q) = sqrt (sq_dist p q)"
  by (simp add: norm_row_def sq_dist_def)

lemma length_rigid: "rotation3 R \<Longrightarrow> length t = 3 \<Longrightarrow> length (rigid R t p) = 3"
  by (simp add: rigid_def rotation3_def)


lemma index_select_map:
  "index_select (map f xs) idx =
     (case index_select xs idx of Inl e \<Rightarrow> Inl e | Inr ys \<Rightarrow> Inr (map f ys))"
  by (auto simp: index_select_def list_all_iff)

lemma index_select_rows:
  assumes "index_select xs idx = Inr ys" and "list_all P xs"
  shows "list_all P ys"
  using assms by (auto simp: index_select_def list_all_iff split: if_splits)

lemma mask_index_map:
  "mask_index (map f xs) msk =
     (case mask_index xs msk of Inl e \<Rightarrow> Inl e | Inr ys \<Rightarrow> Inr (map f ys))"
proof -
  have "map fst (filter snd (zip (map f xs) msk)) = map f (map fst (filter snd (zip xs msk)))"
    by (induction xs arbitrary: msk) (auto split: list.splits simp: zip_Cons1)
  then show ?thesis by (simp add: mask_index_def)
qed

lemma edge_weight_rigid:
  assumes R: "rotation3 R" and t: "length t = 3"
    and a: "list_all (\<lambda>p. length p = 3) a" and b: "list_all (\<lambda>p. length p = 3) b"
  shows "map norm_row (map2 (map2 (-)) (map (rigid R t) a) (map (rigid R t) b)) =
         map norm_row (map2 (map2 (-)) a b)"
proof -
  have "map norm_row (map2 (map2 (-)) (map (rigid R t) a) (map (rigid R t) b)) =
        map (\<lambda>(p, q). norm_row (map2 (-) (rigid R t p) (rigid R t q))) (zip a b)"
    by (simp add: zip_map_map split_def)
  also have "\<dots> = map (\<lambda>(p, q). norm_row (map2 (-) p q)) (zip a b)"
  proof (rule map_cong [OF refl])
    fix pq assume pq: "pq \<in> set (zip a b)"
    obtain p q where e: "pq = (p, q)" by (cases pq)
    have "p \<in> set a" "q \<in> set b" using pq e by (auto dest: set_zip_leftD set_zip_rightD)
    then have "length p = 3" "length q = 3" using a b by (auto simp: list_all_iff)
    then show "(case pq of (p, q) \<Rightarrow> norm_row (map2 (-) (rigid R t p) (rigid R t q))) =
          (case pq of (p, q) \<Rightarrow> norm_row (map2 (-) p q))"
      using rigid_sq_dist [OF R t] by (simp add: e norm_row_sq_dist)
  qed
  also have "\<dots> = map norm_row (map2 (map2 (-)) a b)"
    by (simp add: split_def)
  finally show ?thesis .
qed

lemma atom_features_rigid:
  assumes R: "rotation3 R" and t: "length t = 3"
    and pos: "list_all (\<lambda>p. length p = 3) pos"
    and g: "radius_graph env (map (rigid R t) pos) (cutoff_upper m) batch =
            radius_graph env pos (cutoff_upper m) batch"
  shows "atom_features env m z (map (rigid R t) pos) batch = atom_features env m z pos batch"
proof (cases "index_select (embedding m) z")
  case (Inl e)
  then show ?thesis by (simp add: atom_features_def)
next
  case h: (Inr h)
  let ?E = "radius_graph env pos (cutoff_upper m) batch"
  show ?thesis
  proof (cases "index_select pos (map fst ?E)")
    case (Inl e)
    then show ?thesis by (simp add: atom_features_def h g index_select_map)
  next
    case a: (Inr a)
    show ?thesis
    proof (cases "index_select pos (map snd ?E)")
      case (Inl e)
      then show ?thesis by (simp add: atom_features_def h g a index_select_map)
    next
      case b: (Inr b)
      have "map norm_row (map2 (map2 (-)) (map (rigid R t) a) (map (rigid R t) b)) =
            map norm_row (map2 (map2 (-)) a b)"
        using edge_weight_rigid [OF R t index_select_rows [OF a pos] index_select_rows [OF b pos]] .
      then show ?thesis
        by (simp add: atom_features_def h g a b index_select_map)
    qed
  qed
qed

lemma filter_atoms_map_pos:
  "filter_atoms m h z (map f pos) batch =
     (case filter_atoms m h z pos batch of
        Inl e \<Rightarrow> Inl e
      | Inr (h', z', pos', batch') \<Rightarrow> Inr (h', z', map f pos', batch'))"
  by (simp add: filter_atoms_def mask_index_map split: sum.splits)

lemma per_atom_ignores_pos:
  "\<not> dipole m \<Longrightarrow> per_atom m h z pos batch = per_atom m h z pos2 batch"
  by (simp add: per_atom_def)

lemma radius_graph_reference_rigid:
  assumes R: "rotation3 R" and t: "length t = 3"
    and pos: "list_all (\<lambda>p. length p = 3) pos"
  shows "radius_graph_reference (map (rigid R t) pos) r batch =
         radius_graph_reference pos r batch"
proof -
  let ?n = "min (length pos) (length batch)"
  have d: "sq_dist (map (rigid R t) pos ! j) (map (rigid R t) pos ! i) =
           sq_dist (pos ! j) (pos ! i)" if "i < ?n" "j < ?n" for i j
  proof -
    have "length (pos ! i) = 3" "length (pos ! j) = 3"
      using that pos by (simp_all add: list_all_length)
    then show ?thesis using that rigid_sq_dist [OF R t] by simp
  qed
  have "map (\<lambda>i. map (\<lambda>j. (j, i))
               (take 32 (filter (\<lambda>j. j \<noteq> i \<and> batch ! j = batch ! i \<and> 0 < r \<and>
                   sq_dist (map (rigid R t) pos ! j) (map (rigid R t) pos ! i) < r * r)
                  [0..<?n]))) [0..<?n] =
        map (\<lambda>i. map (\<lambda>j. (j, i))
               (take 32 (filter (\<lambda>j. j \<noteq> i \<and> batch ! j = batch ! i \<and> 0 < r \<and>
                   sq_dist (pos ! j) (pos ! i) < r * r)
                  [0..<?n]))) [0..<?n]"
  proof (rule map_cong [OF refl])
    fix i assume "i \<in> set [0..<?n]"
    then have i: "i < ?n" by simp
    have "filter (\<lambda>j. j \<noteq> i \<and> batch ! j = batch ! i \<and> 0 < r \<and>
              sq_dist (map (rigid R t) pos ! j) (map (rigid R t) pos ! i) < r * r) [0..<?n] =
          filter (\<lambda>j. j \<noteq> i \<and> batch ! j = batch ! i \<and> 0 < r \<and>
              sq_dist (pos ! j) (pos ! i) < r * r) [0..<?n]"
      by (rule filter_cong [OF refl]) (use d [OF i] in auto)
    then show "map (\<lambda>j. (j, i))
          (take 32 (filter (\<lambda>j. j \<noteq> i \<and> batch ! j = batch ! i \<and> 0 < r \<and>
              sq_dist (map (rigid R t) pos ! j) (map (rigid R t) pos ! i) < r * r) [0..<?n])) =
        map (\<lambda>j. (j, i))
          (take 32 (filter (\<lambda>j. j \<noteq> i \<and> batch ! j = batch ! i \<and> 0 < r \<and>
              sq_dist (pos ! j) (pos ! i) < r * r) [0..<?n]))"
      by simp
  qed
  then show ?thesis unfolding radius_graph_reference_def by (simp only: length_map)
qed

text \<open>
  Claim C3. Without dipole mode, over exact real arithmetic: when every position is
  rotated by the same rotation and translated by the same vector, and the neighbor graph
  of the transformed positions is the neighbor graph of the original ones (as it is for
  a radius graph, which depends on the distances only), the scalar output is the same.
  The positions enter the computation only through the neighbor graph and the
  distances along its edges.
\<close>

theorem forward_rigid_invariant:
  assumes "rotation3 R" and "length t = 3"
    and "list_all (\<lambda>p. length p = 3) pos"
    and "\<not> dipole m"
    and "radius_graph env (map (rigid R t) pos) (cutoff_upper m) =
         radius_graph env pos (cutoff_upper m)"
  shows "forward_out env m z (map (rigid R t) pos) batch_arg = forward_out env m z pos batch_arg"
proof -
  let ?batch = "batch_of z batch_arg"
  have a: "atom_features env m z (map (rigid R t) pos) ?batch = atom_features env m z pos ?batch"
    using atom_features_rigid [OF assms(1,2,3)] assms(5) by simp
  show ?thesis
  proof (cases "atom_features env m z pos ?batch")
    case (Inl e)
    then show ?thesis using a by (simp add: forward_out_def forward_locals_def)
  next
    case h: (Inr h)
    show ?thesis
    proof (cases "filter_atoms m h z pos ?batch")
      case (Inl e)
      then show ?thesis
        using a h by (simp add: forward_out_def forward_locals_def filter_atoms_map_pos)
    next
      case (Inr r)
      obtain h' z' pos' batch' where r: "r = (h', z', pos', batch')" by (cases r)
      have "per_atom m h' z' (map (rigid R t) pos') batch' = per_atom m h' z' pos' batch'"
        using per_atom_ignores_pos [OF assms(4)] .
      then show ?thesis
        using a h Inr r
        by (simp add: forward_out_def forward_locals_def filter_atoms_map_pos
            split: sum.splits)
    qed
  qed
qed

text \<open>
  Two hydrogen atoms of one molecule at distance 1, inside the cutoff of 5: each is the
  neighbor of the other, the envelope is positive on both edges, and the output is not
  the one the same atoms give at distance 5, where no edge is left.
\<close>

lemma example_output_depends_on_distance:
  "radius_graph example_env [[0, 0, 0], [0, 0, 1]] (cutoff_upper example_model) [0, 0] =
     [(1, 0), (0, 1)] \<and>
   forward_out example_env example_model [1, 1] [[0, 0, 0], [0, 0, 5]] None = Inr [[1]] \<and>
   forward_out example_env example_model [1, 1] [[0, 0, 0], [0, 0, 1]] None \<noteq> Inr [[1]]"
proof -
  define a where "a = tanh (exp (- 1 :: real))"
  define b where "b = tanh (exp (- (9 / 4) :: real))"
  define c where "c = cos (pi / 5) + 1"
  have a: "0 < a" and b: "0 < b" by (simp_all add: a_def b_def)
  have "0 \<le> cos (pi / 5)" by (rule cos_ge_zero) (use pi_gt_zero in linarith)+
  then have c: "0 < c" by (simp add: c_def)
  have bc: "0 < b * c" using b c by simp
  have "0 < (a + b * 2 + 1) * c / 2" using a b c by (simp add: add_pos_pos)
  then have p: "0 < (a + b * 2 + 1) * c / 2 + b * c" using bc by simp
  have q: "(a + b * 2 + 1) * c / 2 - b * c < (a + b * 2 + 1) * c / 2 + b * c"
    using bc by simp
  have "tanh ((a + b * 2 + 1) * c / 2 - b * c) < tanh ((a + b * 2 + 1) * c / 2 + b * c)"
    using q by simp
  moreover have "0 < tanh ((a + b * 2 + 1) * c / 2 + b * c)"
    using p by simp
  ultimately have k: "tanh ((a + b * 2 + 1) * c / 2 + b * c) * 2 \<noteq>
      tanh ((a + b * 2 + 1) * c / 2 - b * c)"
    by linarith
  have 1: "radius_graph example_env [[0, 0, 0], [0, 0, 1]] (cutoff_upper example_model) [0, 0] =
      [(1, 0), (0, 1)]"
    by (simp add: example_defs upt_rec_numeral)
  have 2: "forward_out example_env example_model [1, 1] [[0, 0, 0], [0, 0, 5]] None = Inr [[1]]"
    by (simp add: forward_out_def forward_defs example_defs upt_rec_numeral numeral_3_eq_3
        norm_row_def cosine_cutoff_def gaussian_smearing_def power2_eq_square)
  have 3: "forward_out example_env example_model [1, 1] [[0, 0, 0], [0, 0, 1]] None \<noteq> Inr [[1]]"
    using k unfolding a_def b_def c_def
    by (simp add: forward_out_def forward_defs example_defs upt_rec_numeral numeral_3_eq_3
        norm_row_def cosine_cutoff_def gaussian_smearing_def power2_eq_square numeral_2_eq_2)
  show ?thesis using 1 2 3 by simp
qed

theorem forward_rigid_invariant_witness:
  "forward_out example_env example_model [1, 1]
     (map (rigid [[1, 0, 0], [0, 0, - 1], [0, 1, 0]] [1, 2, 3]) [[0, 0, 0], [0, 0, 1]]) None =
   forward_out example_env example_model [1, 1] [[0, 0, 0], [0, 0, 1]] None \<and>
   map (rigid [[1, 0, 0], [0, 0, - 1], [0, 1, 0]] [1, 2, 3]) [[0, 0, 0], [0, 0, 1]] =
     [[1, 2, 3], [1, 1, 3]]"
proof -
  have R: "rotation3 [[1, 0, 0], [0, 0, - 1], [0, 1, 0]]"
    by (simp add: rotation3_def)
  have t: "length [1, 2, 3 :: real] = 3" by simp
  have p: "list_all (\<lambda>p. length p = 3) [[0, 0, 0], [0, 0, 1 :: real]]" by simp
  have d: "\<not> dipole example_model" by (simp add: example_model_def)
  have g: "radius_graph example_env
             (map (rigid [[1, 0, 0], [0, 0, - 1], [0, 1, 0]] [1, 2, 3]) [[0, 0, 0], [0, 0, 1]])
             (cutoff_upper example_model) =
           radius_graph example_env [[0, 0, 0], [0, 0, 1]] (cutoff_upper example_model)"
    using radius_graph_reference_rigid [OF R t p] by (auto simp: example_env_def)
  have "map (rigid [[1, 0, 0], [0, 0, - 1], [0, 1, 0]] [1, 2, 3]) [[0, 0, 0], [0, 0, 1]] =
      [[1, 2, 3], [1, 1, 3 :: real]]"
    by (simp add: rigid_def)
  then show ?thesis using forward_rigid_invariant [OF R t p d g] by blast
qed

end
